theory Spec2Isabelle
  imports Main
begin

section \<open>The console program of \<^verbatim>\<open>app.py\<close>: data, effects and exceptions\<close>

text \<open>
  \<^verbatim>\<open>app.py\<close> is one class, \<^verbatim>\<open>ReconSouthAfrica\<close>, whose methods read lines with
  \<^verbatim>\<open>input\<close>, write with \<^verbatim>\<open>print\<close>, append to a log file, issue HTTP GET requests and
  open a geo database. The embedding threads a record of everything the program can
  change (\<open>state\<close>) through every method and takes everything the outside world
  decides (\<open>env\<close>) as a parameter. A character is one of the 256 code points from 0
  to 255, so a string is Latin-1 text.
\<close>

subsection \<open>Exceptions\<close>

text \<open>
  The exception classes the program can meet, and the parts of Python's class
  hierarchy that its three \<^verbatim>\<open>except\<close> clauses test. In \<^verbatim>\<open>requests\<close>,
  \<^verbatim>\<open>JSONDecodeError\<close> derives from both \<^verbatim>\<open>RequestException\<close> and \<^verbatim>\<open>ValueError\<close>, and so
  does \<^verbatim>\<open>InvalidURL\<close>. Every class listed derives from \<^verbatim>\<open>Exception\<close>;
  \<^verbatim>\<open>SystemExit\<close>, which \<^verbatim>\<open>exit()\<close> raises, does not.
\<close>

datatype exc_class =
    EOFError | KeyError | TypeError | IndexError | ValueError | RuntimeError
  | JSONDecodeError | InvalidURL | HTTPError | ConnectionError | Timeout
  | FileNotFoundError | InvalidDatabaseError | AddressNotFoundError

datatype exn = Exn (cls: exc_class) (msg: string)

datatype raised = SystemExit | Raise exn

fun isinstance_ValueError :: "exc_class \<Rightarrow> bool" where
  "isinstance_ValueError ValueError = True"
| "isinstance_ValueError JSONDecodeError = True"
| "isinstance_ValueError InvalidURL = True"
| "isinstance_ValueError _ = False"

fun isinstance_RequestException :: "exc_class \<Rightarrow> bool" where
  "isinstance_RequestException JSONDecodeError = True"
| "isinstance_RequestException InvalidURL = True"
| "isinstance_RequestException HTTPError = True"
| "isinstance_RequestException ConnectionError = True"
| "isinstance_RequestException Timeout = True"
| "isinstance_RequestException _ = False"

subsection \<open>Values that come from outside\<close>

text \<open>A parsed JSON document, as \<^verbatim>\<open>response.json()\<close> returns it.\<close>

datatype json =
    JNull | JBool bool | JInt int | JFloat string | JString string
  | JArray "json list" | JObject "(string \<times> json) list"

text \<open>
  What the program reads of a \<^verbatim>\<open>requests.Response\<close>: \<open>json_body\<close> is the document
  that \<^verbatim>\<open>json()\<close> returns, or, when the body is not a JSON document, the message of the
  \<^verbatim>\<open>JSONDecodeError\<close> that it raises.
\<close>

record response =
  status_code :: nat
  reason :: string
  url :: string
  response_text :: string
  json_body :: "string + json"

text \<open>What \<^verbatim>\<open>reader.city(ip)\<close> returns; a missing attribute is Python's \<^verbatim>\<open>None\<close>.\<close>

record city_response =
  city_name :: "string option"
  country_name :: "string option"
  latitude :: "string option"
  longitude :: "string option"

datatype soup = BeautifulSoup string string

type_synonym params = "(string \<times> string) list option"

record env =
  requests_get :: "nat \<Rightarrow> string \<Rightarrow> params \<Rightarrow> exn + response"
  find_all :: "soup \<Rightarrow> string \<Rightarrow> string \<Rightarrow> string list"
  geoip_Reader :: "string \<Rightarrow> exn + (string \<Rightarrow> exn + city_response)"
  py_str :: "json \<Rightarrow> string"
  py_repr :: "string list \<Rightarrow> string"
  py_repr_str :: "string \<Rightarrow> string"
  int_max_str_digits :: nat

text \<open>
  \<open>requests_get env n u p\<close> is the outcome of the \<open>n\<close>-th GET of the run, for URL \<open>u\<close>
  and parameters \<open>p\<close>; \<open>find_all env doc tag class\<close> is the text of every element
  that BeautifulSoup finds in \<open>doc\<close> for that tag and class; \<open>geoip_Reader env file\<close>
  is either the error of opening the database or its lookup function; \<open>py_str\<close> is
  Python's \<^verbatim>\<open>str\<close> on a JSON value, \<open>py_repr\<close> its rendering of an argument tuple and
  \<open>py_repr_str\<close> its \<^verbatim>\<open>repr\<close> of a string; \<open>int_max_str_digits\<close> is the interpreter's limit
  on the digits of a string given to \<^verbatim>\<open>int\<close> (\<^verbatim>\<open>sys.get_int_max_str_digits()\<close>: 4300 unless
  configured otherwise, 0 for no limit and in an interpreter that has none).
\<close>

subsection \<open>The state of a run\<close>

datatype console_event = Prompt string | Print string

datatype levelname = INFO | ERROR

record log_record =
  level :: levelname
  message :: string

record state =
  stdin :: "string list"
  console :: "console_event list"
  log :: "log_record list"
  requests :: "(string \<times> params) list"
  readers_open :: nat

text \<open>
  \<open>stdin\<close> holds the lines not yet read; \<open>console\<close> everything written to the
  terminal, a \<open>Prompt\<close> for the text \<^verbatim>\<open>input\<close> shows and a \<open>Print\<close> for each line of
  \<^verbatim>\<open>print\<close>; \<open>log\<close> the records given to the log file; \<open>requests\<close> every GET issued;
  \<open>readers_open\<close> the number of geo database readers open at the moment.
\<close>

type_synonym 'a io = "state \<Rightarrow> (raised + 'a) \<times> state"

definition return :: "'a \<Rightarrow> 'a io" where
  "return a s = (Inr a, s)"

definition raise :: "raised \<Rightarrow> 'a io" where
  "raise e s = (Inl e, s)"

definition bind :: "'a io \<Rightarrow> ('a \<Rightarrow> 'b io) \<Rightarrow> 'b io" where
  "bind m f s = (case m s of (Inl e, s') \<Rightarrow> (Inl e, s') | (Inr a, s') \<Rightarrow> f a s')"

definition seq :: "unit io \<Rightarrow> 'b io \<Rightarrow> 'b io" where
  "seq m k = bind m (\<lambda>_. k)"

fun for_each :: "'a list \<Rightarrow> ('a \<Rightarrow> unit io) \<Rightarrow> unit io" where
  "for_each [] f = return ()"
| "for_each (x # xs) f = seq (f x) (for_each xs f)"

definition print :: "string \<Rightarrow> unit io" where
  "print line s = (Inr (), s\<lparr>console := console s @ [Print line]\<rparr>)"

definition input :: "string \<Rightarrow> string io" where
  "input prompt s =
     (case stdin s of
        [] \<Rightarrow> (Inl (Raise (Exn EOFError ''EOF when reading a line'')),
               s\<lparr>console := console s @ [Prompt prompt]\<rparr>)
      | l # ls \<Rightarrow> (Inr l, s\<lparr>stdin := ls, console := console s @ [Prompt prompt]\<rparr>))"

definition logging_error :: "string \<Rightarrow> unit io" where
  "logging_error m s = (Inr (), s\<lparr>log := log s @ [\<lparr>level = ERROR, message = m\<rparr>]\<rparr>)"

definition logging_info :: "string \<Rightarrow> unit io" where
  "logging_info m s = (Inr (), s\<lparr>log := log s @ [\<lparr>level = INFO, message = m\<rparr>]\<rparr>)"

fun levelname_str :: "levelname \<Rightarrow> string" where
  "levelname_str INFO = ''INFO''"
| "levelname_str ERROR = ''ERROR''"

text \<open>
  \<^verbatim>\<open>setup_logging\<close> fixes the line written for a record:
  \<^verbatim>\<open>%(asctime)s:%(levelname)s:%(message)s\<close>, with the time of the call as \<open>asctime\<close>.
\<close>

definition format_record :: "string \<Rightarrow> log_record \<Rightarrow> string" where
  "format_record asctime r = asctime @ '':'' @ levelname_str (level r) @ '':'' @ message r"

subsection \<open>Python built-ins the program uses\<close>

definition digit_char :: "nat \<Rightarrow> char" where
  "digit_char d = char_of (48 + d)"

fun str_nat :: "nat \<Rightarrow> string" where
  "str_nat n = (if n < 10 then [digit_char n] else str_nat (n div 10) @ [digit_char (n mod 10)])"

declare str_nat.simps [simp del]

definition str_int :: "int \<Rightarrow> string" where
  "str_int i = (if i < 0 then CHR ''-'' # str_nat (nat (- i)) else str_nat (nat i))"

definition str_opt :: "string option \<Rightarrow> string" where
  "str_opt v = (case v of None \<Rightarrow> ''None'' | Some x \<Rightarrow> x)"

text \<open>
  \<^verbatim>\<open>str.isspace\<close> on one character: the code points 9 to 13, 28 to 32, 133 (U+0085) and
  160 (U+00A0). \<^verbatim>\<open>str.strip()\<close> and \<^verbatim>\<open>int\<close> drop these at both ends.
\<close>

definition isspace :: "char \<Rightarrow> bool" where
  "isspace c =
     (let n = (of_char c :: nat)
      in (9 \<le> n \<and> n \<le> 13) \<or> (28 \<le> n \<and> n \<le> 32) \<or> n = 133 \<or> n = 160)"

definition strip :: "string \<Rightarrow> string" where
  "strip s = rev (dropWhile isspace (rev (dropWhile isspace s)))"

definition isdigit :: "char \<Rightarrow> bool" where
  "isdigit c = (let n = (of_char c :: nat) in 48 \<le> n \<and> n \<le> 57)"

definition digit_val :: "char \<Rightarrow> nat" where
  "digit_val c = of_char c - 48"

text \<open>
  The digits of an \<^verbatim>\<open>int\<close> literal in base 10: at least one digit, and single
  underscores only between digits. The flag says that the previous character was a digit.
\<close>

fun parse_digits :: "bool \<Rightarrow> nat \<Rightarrow> string \<Rightarrow> nat option" where
  "parse_digits prev acc [] = (if prev then Some acc else None)"
| "parse_digits prev acc (c # cs) =
     (if isdigit c then parse_digits True (acc * 10 + digit_val c) cs
      else if c = CHR ''_'' \<and> prev then parse_digits False acc cs
      else None)"

text \<open>
  \<^verbatim>\<open>int(s)\<close> on a string: white space at both ends is dropped, a sign may come first,
  and the digits follow. The interpreter reads the longest run of digits and
  underscores; a misplaced underscore or no digit at all is an invalid literal; then a
  run of more than 640 digits that exceeds the limit \<open>int_max_str_digits\<close> is refused;
  then anything left after the run is an invalid literal. Every refusal is a
  \<^verbatim>\<open>ValueError\<close>.
\<close>

definition int_py :: "env \<Rightarrow> string \<Rightarrow> exn + int" where
  "int_py env s =
     (let t = strip s;
          negative = (case t of [] \<Rightarrow> False | c # cs \<Rightarrow> c = CHR ''-'');
          body = (case t of
                    [] \<Rightarrow> []
                  | c # cs \<Rightarrow> if c = CHR ''-'' \<or> c = CHR ''+'' then cs else t);
          run = takeWhile (\<lambda>c. isdigit c \<or> c = CHR ''_'') body;
          rest = dropWhile (\<lambda>c. isdigit c \<or> c = CHR ''_'') body;
          digits = length (filter isdigit run);
          invalid = Exn ValueError (''invalid literal for int() with base 10: '' @ py_repr_str env s)
      in case parse_digits False 0 run of
           None \<Rightarrow> Inl invalid
         | Some n \<Rightarrow>
             if 640 < digits \<and> 0 < int_max_str_digits env \<and> int_max_str_digits env < digits
             then Inl (Exn ValueError
                    (''Exceeds the limit ('' @ str_nat (int_max_str_digits env)
                     @ '' digits) for integer string conversion: value has '' @ str_nat digits
                     @ '' digits; use sys.set_int_max_str_digits() to increase the limit''))
             else if rest \<noteq> [] then Inl invalid
             else Inr (if negative then - int n else int n))"

definition getitem :: "'a list \<Rightarrow> int \<Rightarrow> exn + 'a" where
  "getitem xs i =
     (let j = (if i < 0 then i + int (length xs) else i)
      in if j < 0 \<or> int (length xs) \<le> j then Inl (Exn IndexError ''list index out of range'')
         else Inr (xs ! nat j))"

definition lift :: "exn + 'a \<Rightarrow> 'a io" where
  "lift r = (case r of Inl e \<Rightarrow> raise (Raise e) | Inr a \<Rightarrow> return a)"

fun block :: "unit io list \<Rightarrow> unit io" where
  "block [] = return ()"
| "block (m # ms) = seq m (block ms)"

text \<open>
  \<^verbatim>\<open>try: m except C as e: h e\<close>, where \<open>catches\<close> says which classes derive from
  \<^verbatim>\<open>C\<close>. \<^verbatim>\<open>SystemExit\<close> derives from none of the classes the program names.
\<close>

definition try_except :: "'a io \<Rightarrow> (exc_class \<Rightarrow> bool) \<Rightarrow> (exn \<Rightarrow> 'a io) \<Rightarrow> 'a io" where
  "try_except m catches h s =
     (case m s of
        (Inl (Raise e), s') \<Rightarrow> if catches (cls e) then h e s' else (Inl (Raise e), s')
      | (Inl SystemExit, s') \<Rightarrow> (Inl SystemExit, s')
      | (Inr a, s') \<Rightarrow> (Inr a, s'))"

definition isinstance_Exception :: "exc_class \<Rightarrow> bool" where
  "isinstance_Exception c = True"

subsection \<open>The libraries' contracts\<close>

text \<open>
  \<^verbatim>\<open>Response.raise_for_status\<close> raises \<^verbatim>\<open>HTTPError\<close> for a status from 400 to 599 and
  for no other; the truth value of a response, which \<^verbatim>\<open>if response:\<close> tests, is its
  \<^verbatim>\<open>ok\<close>: that \<^verbatim>\<open>raise_for_status\<close> does not raise.
\<close>

definition http_error_msg :: "response \<Rightarrow> string option" where
  "http_error_msg r =
     (if 400 \<le> status_code r \<and> status_code r < 500
      then Some (str_nat (status_code r) @ '' Client Error: '' @ reason r @ '' for url: '' @ url r)
      else if 500 \<le> status_code r \<and> status_code r < 600
      then Some (str_nat (status_code r) @ '' Server Error: '' @ reason r @ '' for url: '' @ url r)
      else None)"

definition raise_for_status :: "response \<Rightarrow> unit io" where
  "raise_for_status r =
     (case http_error_msg r of Some m \<Rightarrow> raise (Raise (Exn HTTPError m)) | None \<Rightarrow> return ())"

definition response_ok :: "response \<Rightarrow> bool" where
  "response_ok r = (http_error_msg r = None)"

definition response_json :: "response \<Rightarrow> json io" where
  "response_json r =
     (case json_body r of
        Inl m \<Rightarrow> raise (Raise (Exn JSONDecodeError m))
      | Inr j \<Rightarrow> return j)"

text \<open>\<^verbatim>\<open>requests.get(url, params=params)\<close>: one GET, recorded in \<open>requests\<close>.\<close>

definition requests_get_io :: "env \<Rightarrow> string \<Rightarrow> params \<Rightarrow> response io" where
  "requests_get_io env u p s =
     lift (requests_get env (length (requests s)) u p) (s\<lparr>requests := requests s @ [(u, p)]\<rparr>)"

text \<open>
  \<^verbatim>\<open>data[key]\<close> with a string key and \<^verbatim>\<open>for record in v\<close> on a JSON value, with the
  messages of Python 3.11; \<open>quoted\<close> puts a name between single quotes.
\<close>

definition quoted :: "string \<Rightarrow> string" where
  "quoted x = CHR 0x27 # x @ [CHR 0x27]"

fun type_name :: "json \<Rightarrow> string" where
  "type_name JNull = ''NoneType''"
| "type_name (JBool b) = ''bool''"
| "type_name (JInt i) = ''int''"
| "type_name (JFloat x) = ''float''"
| "type_name (JString x) = ''str''"
| "type_name (JArray xs) = ''list''"
| "type_name (JObject kvs) = ''dict''"

fun subscript :: "json \<Rightarrow> string \<Rightarrow> exn + json" where
  "subscript (JObject kvs) k =
     (case map_of kvs k of
        None \<Rightarrow> Inl (Exn KeyError (quoted k))
      | Some v \<Rightarrow> Inr v)"
| "subscript (JArray xs) k = Inl (Exn TypeError ''list indices must be integers or slices, not str'')"
| "subscript (JString x) k =
     Inl (Exn TypeError (''string indices must be integers, not '' @ quoted ''str''))"
| "subscript v k = Inl (Exn TypeError (quoted (type_name v) @ '' object is not subscriptable''))"

fun iter :: "json \<Rightarrow> exn + json list" where
  "iter (JArray xs) = Inr xs"
| "iter (JObject kvs) = Inr (map (\<lambda>kv. JString (fst kv)) kvs)"
| "iter (JString x) = Inr (map (\<lambda>c. JString [c]) x)"
| "iter v = Inl (Exn TypeError (quoted (type_name v) @ '' object is not iterable''))"

text \<open>
  \<^verbatim>\<open>with geoip2.database.Reader(file) as reader: body\<close>. When the constructor raises,
  no reader exists; otherwise the reader is open during the body and closed when the
  body ends, normally or by an exception.
\<close>

definition with_Reader ::
  "env \<Rightarrow> string \<Rightarrow> ((string \<Rightarrow> exn + city_response) \<Rightarrow> unit io) \<Rightarrow> unit io" where
  "with_Reader env file body s =
     (case geoip_Reader env file of
        Inl e \<Rightarrow> (Inl (Raise e), s)
      | Inr reader \<Rightarrow>
          (case body reader (s\<lparr>readers_open := Suc (readers_open s)\<rparr>) of
             (r, s') \<Rightarrow> (r, s'\<lparr>readers_open := readers_open s' - 1\<rparr>)))"

section \<open>The methods of \<^verbatim>\<open>ReconSouthAfrica\<close>\<close>

definition run_module ::
  "env \<Rightarrow> (string \<rightharpoonup> (string list \<Rightarrow> unit io)) \<Rightarrow> string \<Rightarrow> string list \<Rightarrow> unit io" where
  "run_module env modules module_name args =
     (case modules module_name of
        Some module_run \<Rightarrow>
          try_except
            (seq (module_run args)
               (logging_info (''Successfully ran module '' @ module_name @ '' with args ''
                  @ py_repr env args)))
            isinstance_Exception
            (\<lambda>e. seq (logging_error (''Error running module '' @ module_name @ '' with args ''
                          @ py_repr env args @ '': '' @ msg e))
                      (print (''An error occurred: '' @ msg e)))
      | None \<Rightarrow> print (''Module '' @ module_name @ '' not found''))"

definition make_request :: "env \<Rightarrow> string \<Rightarrow> params \<Rightarrow> response option io" where
  "make_request env u p =
     try_except
       (bind (requests_get_io env u p) (\<lambda>response.
          seq (raise_for_status response) (return (Some response))))
       isinstance_RequestException
       (\<lambda>e. seq (logging_error (''Request failed: '' @ msg e))
            (seq (print (''Request failed: '' @ msg e)) (return None)))"

definition parse_html :: "string \<Rightarrow> soup" where
  "parse_html html = BeautifulSoup html ''html.parser''"

definition print_help :: "unit io" where
  "print_help =
     block [print ''Help:'',
            print ''Select an option from the menu for details on each action.'']"

definition print_settings :: "unit io" where
  "print_settings = print ''Settings functionality not implemented yet.''"

definition exit_program :: "unit io" where
  "exit_program = seq (print ''Exiting...'') (raise SystemExit)"

subsection \<open>Lookups over HTTP\<close>

definition run_domain_lookup :: "env \<Rightarrow> unit io" where
  "run_domain_lookup env =
     bind (input ''Enter the domain to lookup: '') (\<lambda>domain.
     bind (make_request env (''https://www.za-example.com/domain-lookup/'' @ domain) None) (\<lambda>response.
       case response of
         Some r \<Rightarrow>
           if response_ok r
           then seq (print (''Domain Information for '' @ domain @ '':''))
                  (for_each (find_all env (parse_html (response_text r)) ''div'' ''domain-info'') print)
           else print (''Failed to retrieve data for '' @ domain)
       | None \<Rightarrow> print (''Failed to retrieve data for '' @ domain)))"

definition run_public_records :: "env \<Rightarrow> unit io" where
  "run_public_records env =
     bind (input ''Enter the name to search public records: '') (\<lambda>name.
     bind (make_request env (''https://www.sa-publicrecords-example.com/search?name='' @ name) None)
       (\<lambda>response.
       case response of
         Some r \<Rightarrow>
           if response_ok r
           then bind (response_json r) (\<lambda>data.
                seq (print (''Public Records for '' @ name @ '':''))
               (bind (lift (subscript data ''records'')) (\<lambda>records.
                bind (lift (iter records)) (\<lambda>items.
                for_each items (\<lambda>record. print (py_str env record))))))
           else print (''Failed to retrieve public records for '' @ name)
       | None \<Rightarrow> print (''Failed to retrieve public records for '' @ name)))"

definition run_reverse_image_search :: "env \<Rightarrow> unit io" where
  "run_reverse_image_search env =
     bind (input ''Enter the image URL for reverse image search: '') (\<lambda>image_url.
     bind (make_request env (''https://tineye.com/search?url='' @ image_url) None) (\<lambda>response.
       case response of
         Some r \<Rightarrow>
           if response_ok r
           then seq (print (''Reverse Image Search Results for '' @ image_url @ '':''))
                  (for_each (find_all env (parse_html (response_text r)) ''div'' ''result'') print)
           else print (''Failed to perform reverse image search for '' @ image_url)
       | None \<Rightarrow> print (''Failed to perform reverse image search for '' @ image_url)))"

definition run_saps_wanted_missing :: "env \<Rightarrow> unit io" where
  "run_saps_wanted_missing env =
     bind (input ''Enter the search term for SAPS wanted/missing persons: '') (\<lambda>search_term.
     bind (make_request env (''https://www.saps.gov.za/crimestop/wanted/search.php?q='' @ search_term) None) (\<lambda>response.
       case response of
         Some r \<Rightarrow>
           if response_ok r
           then seq (print (''SAPS Wanted/Missing Persons for '' @ search_term @ '':''))
                  (for_each (find_all env (parse_html (response_text r)) ''div'' ''person-info'') print)
           else print (''Failed to retrieve SAPS wanted/missing persons for '' @ search_term)
       | None \<Rightarrow> print (''Failed to retrieve SAPS wanted/missing persons for '' @ search_term)))"

definition run_international_wanted_missing :: "env \<Rightarrow> unit io" where
  "run_international_wanted_missing env =
     bind (input ''Enter the search term for international wanted/missing persons: '') (\<lambda>search_term.
     bind (make_request env (''https://www.interpol.int/en/How-we-work/Notices/View-Red-Notices?q='' @ search_term) None) (\<lambda>response.
       case response of
         Some r \<Rightarrow>
           if response_ok r
           then seq (print (''International Wanted/Missing Persons for '' @ search_term @ '':''))
                  (for_each (find_all env (parse_html (response_text r)) ''div'' ''result'') print)
           else print (''Failed to retrieve international wanted/missing persons for '' @ search_term)
       | None \<Rightarrow> print (''Failed to retrieve international wanted/missing persons for '' @ search_term)))"

definition run_social_network_search :: "env \<Rightarrow> string \<Rightarrow> unit io" where
  "run_social_network_search env search_type =
     bind (input (''Enter the '' @ search_type @ '' for social network search: '')) (\<lambda>query.
     bind (make_request env
             (''https://www.socialnetworksearch-example.com/search?'' @ search_type @ ''='' @ query)
             None) (\<lambda>response.
       case response of
         Some r \<Rightarrow>
           if response_ok r
           then seq (print (''Social Network Search Results for '' @ search_type @ '' '' @ query
                       @ '':''))
                  (for_each (find_all env (parse_html (response_text r)) ''div'' ''result'') print)
           else print (''Failed to perform social network search for '' @ search_type @ '' ''
                   @ query)
       | None \<Rightarrow> print (''Failed to perform social network search for '' @ search_type @ '' ''
                   @ query)))"

definition run_google_dorks :: "env \<Rightarrow> unit io" where
  "run_google_dorks env =
     bind (input ''Enter the Google Dorks query: '') (\<lambda>search_query.
     bind (make_request env (''https://www.google.com/search?q='' @ search_query) None) (\<lambda>response.
       case response of
         Some r \<Rightarrow>
           if response_ok r
           then seq (print (''Google Dorks Search Results for query: '' @ search_query))
                  (for_each (find_all env (parse_html (response_text r)) ''h3'' ''r'') print)
           else print (''Failed to perform Google Dorks search for query: '' @ search_query)
       | None \<Rightarrow> print (''Failed to perform Google Dorks search for query: '' @ search_query)))"

subsection \<open>The geo database lookup\<close>

definition run_ip_geolocation :: "env \<Rightarrow> unit io" where
  "run_ip_geolocation env =
     bind (input ''Enter the IP address to geolocate: '') (\<lambda>ip_address.
       try_except
         (with_Reader env ''GeoLite2-City.mmdb'' (\<lambda>reader.
            bind (lift (reader ip_address)) (\<lambda>response.
              block [print (''Geolocation for IP '' @ ip_address @ '':''),
                     print (''City: '' @ str_opt (city_name response)),
                     print (''Country: '' @ str_opt (country_name response)),
                     print (''Latitude: '' @ str_opt (latitude response)),
                     print (''Longitude: '' @ str_opt (longitude response))])))
         isinstance_Exception
         (\<lambda>e. seq (logging_error (''Failed to geolocate IP address '' @ ip_address @ '': ''
                       @ msg e))
                   (print (''Failed to geolocate IP address '' @ ip_address @ '': '' @ msg e))))"

subsection \<open>The pattern search\<close>

text \<open>
  The pattern is \<^verbatim>\<open>\b\<close>, the escaped name, \<^verbatim>\<open>\b\<close>, compiled with \<^verbatim>\<open>re.IGNORECASE\<close>:
  it matches at a position where the name stands, letter case apart, between two word
  boundaries. A word character is a letter, a digit or the underscore. \<^verbatim>\<open>findall\<close>
  scans from the left and resumes after each match, one position further when the
  match is empty. The letters and digits are the ASCII ones: the sentence searched is
  ASCII text, so a character above 127 in the name matches nothing in it, with or
  without its case folded.
\<close>

definition isword :: "char \<Rightarrow> bool" where
  "isword c =
     (let n = (of_char c :: nat)
      in (48 \<le> n \<and> n \<le> 57) \<or> (65 \<le> n \<and> n \<le> 90) \<or> n = 95 \<or> (97 \<le> n \<and> n \<le> 122))"

definition lower :: "char \<Rightarrow> char" where
  "lower c = (let n = (of_char c :: nat) in if 65 \<le> n \<and> n \<le> 90 then char_of (n + 32) else c)"

definition word_boundary :: "string \<Rightarrow> nat \<Rightarrow> bool" where
  "word_boundary txt i =
     ((0 < i \<and> i \<le> length txt \<and> isword (txt ! (i - 1))) \<noteq> (i < length txt \<and> isword (txt ! i)))"

definition match_at :: "string \<Rightarrow> string \<Rightarrow> nat \<Rightarrow> bool" where
  "match_at name txt i =
     (i + length name \<le> length txt \<and> word_boundary txt i
      \<and> map lower (take (length name) (drop i txt)) = map lower name
      \<and> word_boundary txt (i + length name))"

function findall_from :: "string \<Rightarrow> string \<Rightarrow> nat \<Rightarrow> string list" where
  "findall_from name txt i =
     (if length txt < i then []
      else if match_at name txt i
      then take (length name) (drop i txt) # findall_from name txt (i + max 1 (length name))
      else findall_from name txt (i + 1))"
  by pat_completeness auto
termination
  by (relation "measure (\<lambda>(name, txt, i). Suc (length txt) - i)") auto

declare findall_from.simps [simp del]

definition findall :: "string \<Rightarrow> string \<Rightarrow> string list" where
  "findall name txt = findall_from name txt 0"

definition sample_text :: string where
  "sample_text = ''Example text with real name John Doe and other content.''"

definition run_real_name_search_pattern :: "unit io" where
  "run_real_name_search_pattern =
     bind (input ''Enter the real name for pattern search: '') (\<lambda>name.
     seq (print (''Searching for patterns matching real name: '' @ name))
       (let matches = findall name sample_text
        in print (''Found '' @ str_nat (length matches) @ '' matches for name '' @ name
                    @ '' in sample text.'')))"

text \<open>
  Whole-word, case-insensitive matching in the words of the specification, written
  without the position arithmetic of the pattern matcher, to compare \<open>findall\<close> with.
  A word character is a letter, a digit or the underscore; two characters are the same
  letter when they are equal once capitals are folded onto small letters; an edge is a
  word boundary when there is a word character on exactly one side of it. The name
  occurs at position \<open>i\<close> of the sentence when the text found there is the name,
  letter for letter, and stands between two word boundaries.
\<close>

definition spec_word_char :: "char \<Rightarrow> bool" where
  "spec_word_char c \<longleftrightarrow>
     c \<in> set (''abcdefghijklmnopqrstuvwxyz'' @ ''ABCDEFGHIJKLMNOPQRSTUVWXYZ'' @ ''0123456789_'')"

definition spec_fold :: "char \<Rightarrow> char" where
  "spec_fold c =
     (case map_of (zip ''ABCDEFGHIJKLMNOPQRSTUVWXYZ'' ''abcdefghijklmnopqrstuvwxyz'') c of
        Some l \<Rightarrow> l
      | None \<Rightarrow> c)"

definition spec_edge :: "string \<Rightarrow> string \<Rightarrow> bool" where
  "spec_edge before after \<longleftrightarrow>
     (before \<noteq> [] \<and> spec_word_char (last before)) \<noteq> (after \<noteq> [] \<and> spec_word_char (hd after))"

definition spec_occurrence :: "string \<Rightarrow> string \<Rightarrow> nat \<Rightarrow> bool" where
  "spec_occurrence name sentence i \<longleftrightarrow>
     i + length name \<le> length sentence
     \<and> (let before = take i sentence;
             found = take (length name) (drop i sentence);
             after = drop (i + length name) sentence
         in map spec_fold found = map spec_fold name
            \<and> spec_edge before (found @ after)
            \<and> spec_edge (before @ found) after)"

subsection \<open>The actions that only echo their input\<close>

definition run_username_search :: "unit io" where
  "run_username_search =
     bind (input ''Enter the username for search: '') (\<lambda>username.
       block [print (''Searching for information related to username: '' @ username),
              print (''Username '' @ username @ '' found on various platforms.'')])"

definition run_email_address_search :: "unit io" where
  "run_email_address_search =
     bind (input ''Enter the email address for search: '') (\<lambda>email.
       block [print (''Searching for information related to email address: '' @ email),
              print (''Information related to '' @ email @ '' found.'')])"

definition run_compromised_databases_search :: "unit io" where
  "run_compromised_databases_search =
     bind (input ''Enter the query for compromised databases search: '') (\<lambda>query.
       block [print (''Searching for compromised databases related to: '' @ query),
              print (''Compromised databases related to '' @ query @ '' found.'')])"

definition run_phone_number_search :: "unit io" where
  "run_phone_number_search =
     bind (input ''Enter the phone number for search: '') (\<lambda>phone_number.
       block [print (''Searching for information related to phone number: '' @ phone_number),
              print (''Information related to phone number '' @ phone_number @ '' found.'')])"

definition run_whois :: "unit io" where
  "run_whois =
     bind (input ''Enter the domain for Whois lookup: '') (\<lambda>domain.
       block [print (''Performing Whois lookup for domain: '' @ domain),
              print (''Whois information for '' @ domain @ ''.'')])"

definition run_reverse_whois :: "unit io" where
  "run_reverse_whois =
     bind (input ''Enter the name for Reverse Whois lookup: '') (\<lambda>name.
       block [print (''Performing Reverse Whois lookup for name: '' @ name),
              print (''Reverse Whois information for '' @ name @ ''.'')])"

definition run_passive_dns :: "unit io" where
  "run_passive_dns =
     bind (input ''Enter the query for Passive DNS lookup: '') (\<lambda>query.
       block [print (''Performing Passive DNS lookup for query: '' @ query),
              print (''Passive DNS information for '' @ query @ ''.'')])"

definition run_geolocation_tools :: "env \<Rightarrow> unit io" where
  "run_geolocation_tools env =
     block [print ''Geolocation Tools:'',
            print ''1. IP-based Geolocation'',
            print ''2. Location Search'',
            bind (input ''Enter your choice (1-2): '') (\<lambda>choice.
              if choice = ''1'' then run_ip_geolocation env
              else if choice = ''2''
              then bind (input ''Enter the location to search: '') (\<lambda>location.
                     block [print (''Performing location search for: '' @ location),
                            print (''Location information for '' @ location @ ''.'')])
              else return ())]"

subsection \<open>The menu and the loop\<close>

text \<open>
  Both tables hold bound methods and closures; a value of \<open>bound_method\<close> names one,
  and \<open>call\<close> runs it.
\<close>

datatype bound_method =
    M_run_domain_lookup | M_run_ip_geolocation | M_run_public_records
  | M_run_reverse_image_search | M_run_saps_wanted_missing
  | M_run_international_wanted_missing | M_run_social_network_search string
  | M_run_real_name_search_pattern | M_run_google_dorks | M_run_username_search
  | M_run_email_address_search | M_run_compromised_databases_search
  | M_run_phone_number_search | M_run_whois | M_run_reverse_whois | M_run_passive_dns
  | M_run_geolocation_tools | M_print_help | M_print_settings | M_exit_program

fun call :: "env \<Rightarrow> bound_method \<Rightarrow> unit io" where
  "call env M_run_domain_lookup = run_domain_lookup env"
| "call env M_run_ip_geolocation = run_ip_geolocation env"
| "call env M_run_public_records = run_public_records env"
| "call env M_run_reverse_image_search = run_reverse_image_search env"
| "call env M_run_saps_wanted_missing = run_saps_wanted_missing env"
| "call env M_run_international_wanted_missing = run_international_wanted_missing env"
| "call env (M_run_social_network_search search_type) = run_social_network_search env search_type"
| "call env M_run_real_name_search_pattern = run_real_name_search_pattern"
| "call env M_run_google_dorks = run_google_dorks env"
| "call env M_run_username_search = run_username_search"
| "call env M_run_email_address_search = run_email_address_search"
| "call env M_run_compromised_databases_search = run_compromised_databases_search"
| "call env M_run_phone_number_search = run_phone_number_search"
| "call env M_run_whois = run_whois"
| "call env M_run_reverse_whois = run_reverse_whois"
| "call env M_run_passive_dns = run_passive_dns"
| "call env M_run_geolocation_tools = run_geolocation_tools env"
| "call env M_print_help = print_help"
| "call env M_print_settings = print_settings"
| "call env M_exit_program = exit_program"

text \<open>The table \<^verbatim>\<open>menu_options\<close> of \<^verbatim>\<open>print_menu\<close>.\<close>

definition print_menu_options :: "(string \<times> bound_method) list" where
  "print_menu_options =
     [(''Domain Lookup'', M_run_domain_lookup),
      (''IP Geolocation'', M_run_ip_geolocation),
      (''Public Records Search'', M_run_public_records),
      (''Reverse Image Search (TinEye)'', M_run_reverse_image_search),
      (''SAPS Wanted/Missing Persons'', M_run_saps_wanted_missing),
      (''International Wanted/Missing Persons'', M_run_international_wanted_missing),
      (''Social Network Search by Email'', M_run_social_network_search ''email''),
      (''Social Network Search by IP'', M_run_social_network_search ''ip''),
      (''Social Network Search by VIN'', M_run_social_network_search ''vin''),
      (''Real Name Search Pattern'', M_run_real_name_search_pattern),
      (''Google Dorks'', M_run_google_dorks),
      (''Username Search'', M_run_username_search),
      (''Email Address Search'', M_run_email_address_search),
      (''Compromised Databases Search'', M_run_compromised_databases_search),
      (''Phone Number Search'', M_run_phone_number_search),
      (''Whois Lookup'', M_run_whois),
      (''Reverse Whois Lookup'', M_run_reverse_whois),
      (''Passive DNS Lookup'', M_run_passive_dns),
      (''Geolocation Tools'', M_run_geolocation_tools),
      (''Help'', M_print_help),
      (''Settings'', M_print_settings),
      (''Exit'', M_exit_program)]"

definition print_menu :: "unit io" where
  "print_menu =
     seq (print ''Choose an action:'')
       (for_each (enumerate 1 print_menu_options)
          (\<lambda>(index, option, _). print (str_nat index @ ''. '' @ option)))"

text \<open>The table \<^verbatim>\<open>menu_options\<close> of \<^verbatim>\<open>run_menu_choice\<close>.\<close>

definition run_menu_choice_options :: "bound_method list" where
  "run_menu_choice_options =
     [M_run_domain_lookup,
      M_run_ip_geolocation,
      M_run_public_records,
      M_run_reverse_image_search,
      M_run_saps_wanted_missing,
      M_run_international_wanted_missing,
      M_run_social_network_search ''email'',
      M_run_social_network_search ''ip'',
      M_run_social_network_search ''vin'',
      M_run_real_name_search_pattern,
      M_run_google_dorks,
      M_run_username_search,
      M_run_email_address_search,
      M_run_compromised_databases_search,
      M_run_phone_number_search,
      M_run_whois,
      M_run_reverse_whois,
      M_run_passive_dns,
      M_run_geolocation_tools]"

definition run_menu_choice :: "env \<Rightarrow> int \<Rightarrow> unit io" where
  "run_menu_choice env choice =
     bind (lift (getitem run_menu_choice_options (choice - 1))) (call env)"

text \<open>
  The body of the \<^verbatim>\<open>try\<close> in \<^verbatim>\<open>start\<close>, from the selection on; \<open>start_try\<close> is the
  whole body, \<open>start_iteration\<close> one turn of the loop, and \<open>start\<close> the loop. The
  loop has no \<^verbatim>\<open>break\<close>: it ends when an exception leaves it, and \<open>start\<close> returns
  that exception with the final state.
\<close>

definition start_choice :: "env \<Rightarrow> int \<Rightarrow> unit io" where
  "start_choice env choice =
     (if 1 \<le> choice \<and> choice \<le> 22
      then if choice = 20 then print_help
           else if choice = 21 then print_settings
           else if choice = 22 then exit_program
           else run_menu_choice env choice
      else print ''Invalid choice. Please enter a number between 1 and 22.'')"

definition start_try :: "env \<Rightarrow> unit io" where
  "start_try env =
     bind (input ''Enter your choice (1-22): '') (\<lambda>line.
     bind (lift (int_py env (strip line))) (\<lambda>choice.
     start_choice env choice))"

definition start_iteration :: "env \<Rightarrow> unit io" where
  "start_iteration env =
     seq print_menu
       (try_except (start_try env) isinstance_ValueError
          (\<lambda>e. print ''Invalid input. Please enter a number.''))"

function start :: "env \<Rightarrow> state \<Rightarrow> raised \<times> state" where
  "start env s =
     (case start_iteration env s of
        (Inl e, s') \<Rightarrow> (e, s')
      | (Inr u, s') \<Rightarrow> start env s')"
  by pat_completeness auto

text \<open>What \<^verbatim>\<open>print_menu\<close> writes.\<close>

definition menu_lines :: "console_event list" where
  "menu_lines =
     Print ''Choose an action:''
     # map (\<lambda>(index, option, _). Print (str_nat index @ ''. '' @ option))
         (enumerate 1 print_menu_options)"

text \<open>A computation that gives no line back to the input.\<close>

definition stdin_le :: "'a io \<Rightarrow> bool" where
  "stdin_le m \<longleftrightarrow> (\<forall>s. length (stdin (snd (m s))) \<le> length (stdin s))"

subsection \<open>Concrete runs\<close>

text \<open>A fresh run on the given input lines, and a machine with no network and no database.\<close>

definition state0 :: "string list \<Rightarrow> state" where
  "state0 lines = \<lparr>stdin = lines, console = [], log = [], requests = [], readers_open = 0\<rparr>"

definition env_offline :: env where
  "env_offline =
     \<lparr>requests_get = (\<lambda>n u p. Inl (Exn ConnectionError ''Connection refused'')),
      find_all = (\<lambda>doc tag c. []),
      geoip_Reader = (\<lambda>file. Inl (Exn FileNotFoundError ''No such file or directory'')),
      py_str = (\<lambda>j. []),
      py_repr = (\<lambda>args. []),
      py_repr_str = quoted,
      int_max_str_digits = 4300\<rparr>"

definition response_with :: "nat \<Rightarrow> string \<Rightarrow> string + json \<Rightarrow> response" where
  "response_with status why body =
     \<lparr>status_code = status, reason = why, url = ''https://example.com/'',
      response_text = [], json_body = body\<rparr>"

text \<open>What \<^verbatim>\<open>json()\<close> raises on an empty body.\<close>

definition not_json :: "string + json" where
  "not_json = Inl ''Expecting value: line 1 column 1 (char 0)''"

definition env_serving :: "response \<Rightarrow> env" where
  "env_serving r = env_offline\<lparr>requests_get := (\<lambda>n u p. Inr r)\<rparr>"

definition reader_example :: "string \<Rightarrow> exn + city_response" where
  "reader_example ip =
     (if ip = ''8.8.8.8''
      then Inr \<lparr>city_name = None, country_name = Some ''United States'',
               latitude = Some ''37.751'', longitude = Some ''-97.822''\<rparr>
      else Inl (Exn AddressNotFoundError
                  (''The address '' @ ip @ '' is not in the database.'')))"

definition env_with_reader :: "(string \<Rightarrow> exn + city_response) \<Rightarrow> env" where
  "env_with_reader reader = env_offline\<lparr>geoip_Reader := (\<lambda>file. Inr reader)\<rparr>"

text \<open>The state in which the selection has been read: the menu and the prompt are written.\<close>

definition prompted :: "state \<Rightarrow> string list \<Rightarrow> state" where
  "prompted s rest =
     s\<lparr>stdin := rest,
       console := console s @ menu_lines @ [Prompt ''Enter your choice (1-22): '']\<rparr>"

section \<open>The loop ends on every finite input\<close>

text \<open>
  No method gives lines back to the input, and a turn of the loop that does not end it
  has read one. So the loop is a total function of the lines typed: on a finite input
  it ends, at the latest with the \<^verbatim>\<open>EOFError\<close> of the first read past the end.
\<close>

lemma stdin_leD: "stdin_le m \<Longrightarrow> m s = (r, s') \<Longrightarrow> length (stdin s') \<le> length (stdin s)"
  unfolding stdin_le_def by (metis snd_conv)

lemma stdin_le_return [simp]: "stdin_le (return a)"
  by (simp add: stdin_le_def return_def)

lemma stdin_le_raise [simp]: "stdin_le (raise e)"
  by (simp add: stdin_le_def raise_def)

lemma stdin_le_print [simp]: "stdin_le (print l)"
  by (simp add: stdin_le_def print_def)

lemma stdin_le_logging_error [simp]: "stdin_le (logging_error l)"
  by (simp add: stdin_le_def logging_error_def)

lemma stdin_le_logging_info [simp]: "stdin_le (logging_info l)"
  by (simp add: stdin_le_def logging_info_def)

lemma stdin_le_input [simp]: "stdin_le (input p)"
  by (simp add: stdin_le_def input_def split: list.splits)

lemma stdin_le_lift [simp]: "stdin_le (lift r)"
  by (cases r) (simp_all add: lift_def)

lemma stdin_le_bind [intro!]:
  assumes "stdin_le m" and "\<And>a. stdin_le (f a)"
  shows "stdin_le (bind m f)"
  unfolding stdin_le_def
proof
  fix s
  obtain r s' where ms: "m s = (r, s')" by (cases "m s")
  have le1: "length (stdin s') \<le> length (stdin s)" using assms(1) ms by (rule stdin_leD)
  show "length (stdin (snd (bind m f s))) \<le> length (stdin s)"
  proof (cases r)
    case (Inl e)
    then show ?thesis using ms le1 by (simp add: bind_def)
  next
    case (Inr a)
    obtain r2 s2 where fs: "f a s' = (r2, s2)" by (cases "f a s'")
    have "length (stdin s2) \<le> length (stdin s')" using assms(2) fs by (rule stdin_leD)
    then show ?thesis using Inr ms fs le1 by (simp add: bind_def)
  qed
qed

lemma stdin_le_seq [intro!]: "stdin_le m \<Longrightarrow> stdin_le k \<Longrightarrow> stdin_le (seq m k)"
  unfolding seq_def by (rule stdin_le_bind)

lemma stdin_le_for_each [intro!]: "(\<And>x. stdin_le (f x)) \<Longrightarrow> stdin_le (for_each xs f)"
  by (induction xs) (auto)

lemma stdin_le_block [intro!]: "(\<And>m. m \<in> set ms \<Longrightarrow> stdin_le m) \<Longrightarrow> stdin_le (block ms)"
  by (induction ms) (auto)

lemma stdin_le_try_except [intro!]:
  assumes "stdin_le m" and "\<And>e. stdin_le (h e)"
  shows "stdin_le (try_except m c h)"
  unfolding stdin_le_def
proof
  fix s
  obtain r s' where ms: "m s = (r, s')" by (cases "m s")
  have le1: "length (stdin s') \<le> length (stdin s)" using assms(1) ms by (rule stdin_leD)
  show "length (stdin (snd (try_except m c h s))) \<le> length (stdin s)"
  proof (cases r)
    case (Inr a)
    then show ?thesis using ms le1 by (simp add: try_except_def)
  next
    case (Inl x)
    show ?thesis
    proof (cases x)
      case SystemExit
      then show ?thesis using Inl ms le1 by (simp add: try_except_def)
    next
      case (Raise e)
      obtain r2 s2 where hs: "h e s' = (r2, s2)" by (cases "h e s'")
      have "length (stdin s2) \<le> length (stdin s')" using assms(2) hs by (rule stdin_leD)
      then show ?thesis using Inl Raise ms hs le1 by (simp add: try_except_def)
    qed
  qed
qed

lemma stdin_le_with_Reader [intro!]:
  assumes "\<And>reader. stdin_le (body reader)"
  shows "stdin_le (with_Reader env file body)"
  unfolding stdin_le_def
proof
  fix s
  show "length (stdin (snd (with_Reader env file body s))) \<le> length (stdin s)"
  proof (cases "geoip_Reader env file")
    case (Inl e)
    then show ?thesis by (simp add: with_Reader_def)
  next
    case (Inr reader)
    obtain r s' where bs: "body reader (s\<lparr>readers_open := Suc (readers_open s)\<rparr>) = (r, s')"
      by (cases "body reader (s\<lparr>readers_open := Suc (readers_open s)\<rparr>)")
    have "length (stdin s') \<le> length (stdin (s\<lparr>readers_open := Suc (readers_open s)\<rparr>))"
      using assms bs by (rule stdin_leD)
    then show ?thesis using Inr bs by (simp add: with_Reader_def)
  qed
qed

lemma stdin_le_requests_get_io [simp]: "stdin_le (requests_get_io env u p)"
  unfolding stdin_le_def requests_get_io_def
  by (cases "requests_get env (length (requests s)) u p")
     (auto simp: lift_def raise_def return_def split: sum.splits)

lemma stdin_le_raise_for_status [simp]: "stdin_le (raise_for_status r)"
  by (simp add: raise_for_status_def split: option.splits)

lemma stdin_le_response_json [simp]: "stdin_le (response_json r)"
  by (simp add: response_json_def split: sum.splits)

lemma stdin_le_make_request [simp]: "stdin_le (make_request env u p)"
  unfolding make_request_def by (intro stdin_le_try_except stdin_le_bind stdin_le_seq) simp_all

lemma stdin_le_scrapers [simp]:
  "stdin_le (run_domain_lookup env)"
  "stdin_le (run_reverse_image_search env)"
  "stdin_le (run_saps_wanted_missing env)"
  "stdin_le (run_international_wanted_missing env)"
  "stdin_le (run_social_network_search env search_type)"
  "stdin_le (run_google_dorks env)"
  unfolding run_domain_lookup_def run_reverse_image_search_def run_saps_wanted_missing_def
    run_international_wanted_missing_def run_social_network_search_def run_google_dorks_def
  by (auto split: option.splits)

lemma stdin_le_run_public_records [simp]: "stdin_le (run_public_records env)"
  unfolding run_public_records_def by (auto split: option.splits)

lemma stdin_le_run_ip_geolocation [simp]: "stdin_le (run_ip_geolocation env)"
  unfolding run_ip_geolocation_def by auto

lemma stdin_le_local [simp]:
  "stdin_le run_real_name_search_pattern"
  "stdin_le run_username_search"
  "stdin_le run_email_address_search"
  "stdin_le run_compromised_databases_search"
  "stdin_le run_phone_number_search"
  "stdin_le run_whois"
  "stdin_le run_reverse_whois"
  "stdin_le run_passive_dns"
  "stdin_le print_help"
  "stdin_le print_settings"
  "stdin_le exit_program"
  unfolding run_real_name_search_pattern_def run_username_search_def
    run_email_address_search_def run_compromised_databases_search_def
    run_phone_number_search_def run_whois_def run_reverse_whois_def run_passive_dns_def
    print_help_def print_settings_def exit_program_def
  by (auto simp: Let_def)

lemma stdin_le_run_geolocation_tools [simp]: "stdin_le (run_geolocation_tools env)"
  unfolding run_geolocation_tools_def by auto

lemma stdin_le_call [simp]: "stdin_le (call env m)"
  by (cases m) simp_all

lemma stdin_le_run_menu_choice [simp]: "stdin_le (run_menu_choice env choice)"
  unfolding run_menu_choice_def by auto

lemma stdin_le_start_choice [simp]: "stdin_le (start_choice env choice)"
  unfolding start_choice_def by simp

lemma stdin_le_print_menu [simp]: "stdin_le print_menu"
  unfolding print_menu_def by auto

lemma for_each_print:
  "for_each xs (\<lambda>(index, option, _). print (h index option)) s
   = (Inr (), s\<lparr>console := console s @ map (\<lambda>(index, option, _). Print (h index option)) xs\<rparr>)"
  by (induction xs arbitrary: s)
     (auto simp: return_def seq_def bind_def print_def split: prod.splits)

lemma print_menu_eq: "print_menu s = (Inr (), s\<lparr>console := console s @ menu_lines\<rparr>)"
  unfolding print_menu_def menu_lines_def seq_def bind_def print_def for_each_print
  by simp

lemma menu_lines_eq:
  "menu_lines =
     [Print ''Choose an action:'',
      Print ''1. Domain Lookup'',
      Print ''2. IP Geolocation'',
      Print ''3. Public Records Search'',
      Print ''4. Reverse Image Search (TinEye)'',
      Print ''5. SAPS Wanted/Missing Persons'',
      Print ''6. International Wanted/Missing Persons'',
      Print ''7. Social Network Search by Email'',
      Print ''8. Social Network Search by IP'',
      Print ''9. Social Network Search by VIN'',
      Print ''10. Real Name Search Pattern'',
      Print ''11. Google Dorks'',
      Print ''12. Username Search'',
      Print ''13. Email Address Search'',
      Print ''14. Compromised Databases Search'',
      Print ''15. Phone Number Search'',
      Print ''16. Whois Lookup'',
      Print ''17. Reverse Whois Lookup'',
      Print ''18. Passive DNS Lookup'',
      Print ''19. Geolocation Tools'',
      Print ''20. Help'',
      Print ''21. Settings'',
      Print ''22. Exit'']"
  unfolding menu_lines_def print_menu_options_def by code_simp

lemma start_iteration_consumes:
  assumes "start_iteration env s = (Inr u, s')"
  shows "length (stdin s') < length (stdin s)"
proof (cases "stdin s")
  case Nil
  then have "start_iteration env s
      = (Inl (Raise (Exn EOFError ''EOF when reading a line'')),
         s\<lparr>console := console s @ menu_lines @ [Prompt ''Enter your choice (1-22): '']\<rparr>)"
    by (simp add: start_iteration_def seq_def bind_def print_menu_eq try_except_def
        start_try_def input_def)
  with assms show ?thesis by simp
next
  case (Cons l ls)
  let ?s1 = "s\<lparr>console := console s @ menu_lines\<rparr>"
  let ?s2 = "?s1\<lparr>stdin := ls, console := console ?s1 @ [Prompt ''Enter your choice (1-22): '']\<rparr>"
  let ?k = "bind (lift (int_py env (strip l))) (start_choice env)"
  have body: "start_try env ?s1 = ?k ?s2"
    using Cons by (simp add: start_try_def bind_def input_def)
  have "stdin_le (try_except ?k isinstance_ValueError
           (\<lambda>e. print ''Invalid input. Please enter a number.''))"
    by (intro stdin_le_try_except stdin_le_bind) simp_all
  then have "length (stdin (snd (try_except ?k isinstance_ValueError
           (\<lambda>e. print ''Invalid input. Please enter a number.'') ?s2))) \<le> length (stdin ?s2)"
    unfolding stdin_le_def by blast
  moreover have "start_iteration env s
      = try_except ?k isinstance_ValueError
           (\<lambda>e. print ''Invalid input. Please enter a number.'') ?s2"
    by (simp add: start_iteration_def seq_def bind_def print_menu_eq try_except_def body)
  ultimately have "length (stdin (snd (start_iteration env s))) \<le> length (stdin ?s2)"
    by simp
  with assms Cons show ?thesis by simp
qed

termination start
  by (relation "measure (\<lambda>(env, s). length (stdin s))") (auto dest: start_iteration_consumes [OF sym])

declare start.simps [simp del]

lemmas io_defs = return_def raise_def bind_def seq_def print_def input_def logging_error_def
  logging_info_def lift_def try_except_def

lemma str_nat_0_1: "str_nat 0 = ''0''" "str_nat (Suc 0) = ''1''"
  by code_simp+

section \<open>The actions\<close>

subsection \<open>The pattern search\<close>

text \<open>
  The pattern matcher agrees with the specification's notions, character by character
  and position by position.
\<close>

lemma isword_spec: "\<forall>c. isword c = spec_word_char c"
  by code_simp

lemma lower_spec: "\<forall>c. lower c = spec_fold c"
  by code_simp

lemma spec_fold_word: "\<forall>c. spec_word_char (spec_fold c) = spec_word_char c"
  by code_simp

lemma word_boundary_spec:
  assumes "i \<le> length sentence"
  shows "word_boundary sentence i = spec_edge (take i sentence) (drop i sentence)"
proof -
  have l: "last (take i sentence) = sentence ! (i - 1)" if "0 < i"
  proof -
    from that assms have "take i sentence \<noteq> []" by auto
    then have "last (take i sentence) = take i sentence ! (length (take i sentence) - 1)"
      by (rule last_conv_nth)
    also have "\<dots> = take i sentence ! (i - 1)" using assms by simp
    also have "\<dots> = sentence ! (i - 1)" using that by simp
    finally show ?thesis .
  qed
  have h: "i < length sentence \<Longrightarrow> hd (drop i sentence) = sentence ! i"
    by (simp add: hd_drop_conv_nth)
  show ?thesis
    using assms l h isword_spec
    by (cases "i = 0"; cases "i < length sentence")
       (auto simp: word_boundary_def spec_edge_def)
qed

lemma match_at_spec: "match_at name sentence i = spec_occurrence name sentence i"
proof (cases "i + length name \<le> length sentence")
  case False
  then show ?thesis by (simp add: match_at_def spec_occurrence_def)
next
  case True
  have f: "lower = spec_fold" using lower_spec by (simp add: fun_eq_iff)
  have a: "take i sentence @ take (length name) (drop i sentence)
           = take (i + length name) sentence"
    by (simp add: take_add)
  have b: "take (length name) (drop i sentence) @ drop (i + length name) sentence
           = drop i sentence"
    by (metis add.commute append_take_drop_id drop_drop)
  have "word_boundary sentence i = spec_edge (take i sentence) (drop i sentence)"
    using True by (simp add: word_boundary_spec)
  moreover have "word_boundary sentence (i + length name)
      = spec_edge (take (i + length name) sentence) (drop (i + length name) sentence)"
    using True by (simp add: word_boundary_spec)
  ultimately show ?thesis
    using True unfolding match_at_def spec_occurrence_def Let_def f a b by blast
qed

text \<open>
  For a name that begins and ends with a word character, an occurrence is a whole word
  in the everyday sense: the text found is the name, letter case apart, and neither the
  character before it nor the character after it is a word character.
\<close>

lemma spec_occurrence_of_a_word:
  assumes "name \<noteq> []" and "spec_word_char (hd name)" and "spec_word_char (last name)"
  shows "spec_occurrence name sentence i \<longleftrightarrow>
           i + length name \<le> length sentence
           \<and> map spec_fold (take (length name) (drop i sentence)) = map spec_fold name
           \<and> (take i sentence = [] \<or> \<not> spec_word_char (last (take i sentence)))
           \<and> (drop (i + length name) sentence = []
                \<or> \<not> spec_word_char (hd (drop (i + length name) sentence)))"
proof (cases "i + length name \<le> length sentence
    \<and> map spec_fold (take (length name) (drop i sentence)) = map spec_fold name")
  case False
  then show ?thesis by (auto simp: spec_occurrence_def Let_def)
next
  case True
  let ?found = "take (length name) (drop i sentence)"
  have ne: "?found \<noteq> []" using True assms(1) by auto
  have "spec_fold (hd ?found) = spec_fold (hd name)"
    using True ne assms(1) by (metis hd_map)
  then have h: "spec_word_char (hd ?found)"
    using assms(2) spec_fold_word by metis
  have "spec_fold (last ?found) = spec_fold (last name)"
    using True ne assms(1) by (metis last_map)
  then have l: "spec_word_char (last ?found)"
    using assms(3) spec_fold_word by metis
  show ?thesis
    using True ne h l by (auto simp: spec_occurrence_def Let_def spec_edge_def)
qed

text \<open>
  What \<open>findall\<close> returns: the texts at the positions chosen from left to right
  among the occurrences, each choice the first occurrence that does not overlap the
  previous one.
\<close>

lemma findall_from_positions:
  "\<exists>ps. findall_from name sentence i = map (\<lambda>p. take (length name) (drop p sentence)) ps
     \<and> (\<forall>p\<in>set ps. i \<le> p \<and> match_at name sentence p)
     \<and> sorted_wrt (\<lambda>p q. p + max 1 (length name) \<le> q) ps
     \<and> (\<forall>j\<ge>i. match_at name sentence j \<longrightarrow>
           (\<exists>p\<in>set ps. p \<le> j \<and> j < p + max 1 (length name)))"
proof (induction name sentence i rule: findall_from.induct)
  case (1 name sentence i)
  let ?step = "max 1 (length name)"
  let ?m = "\<lambda>p. take (length name) (drop p sentence)"
  show ?case
  proof (cases "length sentence < i")
    case True
    have "findall_from name sentence i = []"
      using True by (subst findall_from.simps) simp
    moreover have "\<forall>j\<ge>i. \<not> match_at name sentence j"
      using True by (auto simp: match_at_def)
    ultimately show ?thesis by (intro exI [of _ "[]"]) simp
  next
    case False
    show ?thesis
    proof (cases "match_at name sentence i")
      case True
      from "1.IH"(1) [OF False True] obtain ps where
        eq: "findall_from name sentence (i + ?step) = map ?m ps"
        and occ: "\<forall>p\<in>set ps. i + ?step \<le> p \<and> match_at name sentence p"
        and srt: "sorted_wrt (\<lambda>p q. p + ?step \<le> q) ps"
        and cov: "\<forall>j\<ge>i + ?step. match_at name sentence j \<longrightarrow>
                    (\<exists>p\<in>set ps. p \<le> j \<and> j < p + ?step)"
        by blast
      have "findall_from name sentence i = map ?m (i # ps)"
        using False True eq by (subst findall_from.simps) simp
      moreover have "\<forall>p\<in>set (i # ps). i \<le> p \<and> match_at name sentence p"
        using occ True by auto
      moreover have "sorted_wrt (\<lambda>p q. p + ?step \<le> q) (i # ps)"
        using occ srt by auto
      moreover have "\<forall>j\<ge>i. match_at name sentence j \<longrightarrow>
                    (\<exists>p\<in>set (i # ps). p \<le> j \<and> j < p + ?step)"
      proof (intro allI impI)
        fix j assume j: "i \<le> j" and m: "match_at name sentence j"
        show "\<exists>p\<in>set (i # ps). p \<le> j \<and> j < p + ?step"
        proof (cases "j < i + ?step")
          case True
          with j show ?thesis by auto
        next
          case far: False
          then have "i + ?step \<le> j" by simp
          with cov m obtain p where "p \<in> set ps" "p \<le> j" "j < p + ?step" by blast
          then show ?thesis by auto
        qed
      qed
      ultimately show ?thesis by blast
    next
      case nomatch: False
      from "1.IH"(2) [OF False nomatch] obtain ps where
        eq: "findall_from name sentence (i + 1) = map ?m ps"
        and occ: "\<forall>p\<in>set ps. i + 1 \<le> p \<and> match_at name sentence p"
        and srt: "sorted_wrt (\<lambda>p q. p + ?step \<le> q) ps"
        and cov: "\<forall>j\<ge>i + 1. match_at name sentence j \<longrightarrow>
                    (\<exists>p\<in>set ps. p \<le> j \<and> j < p + ?step)"
        by blast
      have "findall_from name sentence i = map ?m ps"
        using False nomatch eq by (subst findall_from.simps) simp
      moreover have "\<forall>p\<in>set ps. i \<le> p \<and> match_at name sentence p"
        using occ by auto
      moreover have "\<forall>j\<ge>i. match_at name sentence j \<longrightarrow>
                    (\<exists>p\<in>set ps. p \<le> j \<and> j < p + ?step)"
      proof (intro allI impI)
        fix j assume j: "i \<le> j" and m: "match_at name sentence j"
        with nomatch have "i \<noteq> j" by blast
        with j have "i + 1 \<le> j" by simp
        with cov m show "\<exists>p\<in>set ps. p \<le> j \<and> j < p + ?step" by blast
      qed
      ultimately show ?thesis using srt by blast
    qed
  qed
qed

lemma findall_positions:
  "\<exists>positions.
     findall name sentence = map (\<lambda>p. take (length name) (drop p sentence)) positions
     \<and> (\<forall>p\<in>set positions. spec_occurrence name sentence p)
     \<and> sorted_wrt (\<lambda>p q. p + max 1 (length name) \<le> q) positions
     \<and> (\<forall>j. spec_occurrence name sentence j \<longrightarrow>
           (\<exists>p\<in>set positions. p \<le> j \<and> j < p + max 1 (length name)))"
  using findall_from_positions [of name sentence 0]
  unfolding findall_def match_at_spec by auto

lemma findall_John_Doe: "findall ''John Doe'' sample_text = [''John Doe'']"
  by code_simp

lemma findall_Jane: "findall ''Jane'' sample_text = []"
  by code_simp

lemma findall_ignores_case: "findall ''john DOE'' sample_text = [''John Doe'']"
  by code_simp

lemma findall_whole_words_only: "findall ''Joh'' sample_text = []" "findall ''ample'' sample_text = []"
  by code_simp+

lemma findall_spaces: "length (findall '' '' sample_text) = 9"
  by code_simp

lemma str_nat_9: "str_nat 9 = ''9''"
  by code_simp

lemma spec_occurrence_examples:
  "spec_occurrence ''john DOE'' sample_text 28"
  "\<not> spec_occurrence ''Joh'' sample_text 28"
  by code_simp+

text \<open>
  C4. The real-name pattern search reads one line, consults nothing but the fixed sample
  sentence (no GET is issued, nothing is logged, no reader is opened) and prints the
  number of matches that \<open>findall\<close> returns. These matches are whole-word,
  case-insensitive occurrences of the line in the sentence: they stand at positions
  where the line occurs as the specification says, no two of them overlap, and every
  occurrence in the sentence is one of them or overlaps one of them from the right.
  For \<^verbatim>\<open>John Doe\<close> the number printed is 1, for \<^verbatim>\<open>Jane\<close> it is 0; \<^verbatim>\<open>john DOE\<close>
  gives 1 as well, and \<^verbatim>\<open>Joh\<close> and \<^verbatim>\<open>ample\<close>, which stand in the sentence only inside
  longer words, give 0.
\<close>

theorem real_name_search_reports_count:
  assumes "stdin s = name # rest"
  shows "run_real_name_search_pattern s
           = (Inr (), s\<lparr>stdin := rest, console := console s @
               [Prompt ''Enter the real name for pattern search: '',
                Print (''Searching for patterns matching real name: '' @ name),
                Print (''Found '' @ str_nat (length (findall name sample_text))
                         @ '' matches for name '' @ name @ '' in sample text.'')]\<rparr>)
         \<and> (\<exists>positions.
               findall name sample_text
                 = map (\<lambda>p. take (length name) (drop p sample_text)) positions
               \<and> (\<forall>p\<in>set positions. spec_occurrence name sample_text p)
               \<and> sorted_wrt (\<lambda>p q. p + max 1 (length name) \<le> q) positions
               \<and> (\<forall>j. spec_occurrence name sample_text j \<longrightarrow>
                     (\<exists>p\<in>set positions. p \<le> j \<and> j < p + max 1 (length name))))"
proof
  show "run_real_name_search_pattern s
           = (Inr (), s\<lparr>stdin := rest, console := console s @
               [Prompt ''Enter the real name for pattern search: '',
                Print (''Searching for patterns matching real name: '' @ name),
                Print (''Found '' @ str_nat (length (findall name sample_text))
                         @ '' matches for name '' @ name @ '' in sample text.'')]\<rparr>)"
    using assms by (simp add: run_real_name_search_pattern_def io_defs)
  show "\<exists>positions.
               findall name sample_text
                 = map (\<lambda>p. take (length name) (drop p sample_text)) positions
               \<and> (\<forall>p\<in>set positions. spec_occurrence name sample_text p)
               \<and> sorted_wrt (\<lambda>p q. p + max 1 (length name) \<le> q) positions
               \<and> (\<forall>j. spec_occurrence name sample_text j \<longrightarrow>
                     (\<exists>p\<in>set positions. p \<le> j \<and> j < p + max 1 (length name)))"
    by (rule findall_positions)
qed

theorem real_name_search_reports_count_witness:
  "run_real_name_search_pattern (state0 [''John Doe''])
     = (Inr (), \<lparr>stdin = [], console =
          [Prompt ''Enter the real name for pattern search: '',
           Print ''Searching for patterns matching real name: John Doe'',
           Print ''Found 1 matches for name John Doe in sample text.''],
          log = [], requests = [], readers_open = 0\<rparr>)
   \<and> run_real_name_search_pattern (state0 [''Jane''])
     = (Inr (), \<lparr>stdin = [], console =
          [Prompt ''Enter the real name for pattern search: '',
           Print ''Searching for patterns matching real name: Jane'',
           Print ''Found 0 matches for name Jane in sample text.''],
          log = [], requests = [], readers_open = 0\<rparr>)
   \<and> run_real_name_search_pattern (state0 [''john DOE''])
     = (Inr (), \<lparr>stdin = [], console =
          [Prompt ''Enter the real name for pattern search: '',
           Print ''Searching for patterns matching real name: john DOE'',
           Print ''Found 1 matches for name john DOE in sample text.''],
          log = [], requests = [], readers_open = 0\<rparr>)
   \<and> run_real_name_search_pattern (state0 [''Joh''])
     = (Inr (), \<lparr>stdin = [], console =
          [Prompt ''Enter the real name for pattern search: '',
           Print ''Searching for patterns matching real name: Joh'',
           Print ''Found 0 matches for name Joh in sample text.''],
          log = [], requests = [], readers_open = 0\<rparr>)
   \<and> run_real_name_search_pattern (state0 [''ample''])
     = (Inr (), \<lparr>stdin = [], console =
          [Prompt ''Enter the real name for pattern search: '',
           Print ''Searching for patterns matching real name: ample'',
           Print ''Found 0 matches for name ample in sample text.''],
          log = [], requests = [], readers_open = 0\<rparr>)
   \<and> run_real_name_search_pattern (state0 ['' ''])
     = (Inr (), \<lparr>stdin = [], console =
          [Prompt ''Enter the real name for pattern search: '',
           Print ''Searching for patterns matching real name:  '',
           Print ''Found 9 matches for name   in sample text.''],
          log = [], requests = [], readers_open = 0\<rparr>)
   \<and> spec_occurrence ''john DOE'' sample_text 28
   \<and> \<not> spec_occurrence ''Joh'' sample_text 28"
  using real_name_search_reports_count [of "state0 [''John Doe'']" "''John Doe''" "[]", THEN conjunct1]
    real_name_search_reports_count [of "state0 [''Jane'']" "''Jane''" "[]", THEN conjunct1]
    real_name_search_reports_count [of "state0 [''john DOE'']" "''john DOE''" "[]", THEN conjunct1]
    real_name_search_reports_count [of "state0 [''Joh'']" "''Joh''" "[]", THEN conjunct1]
    real_name_search_reports_count [of "state0 [''ample'']" "''ample''" "[]", THEN conjunct1]
    real_name_search_reports_count [of "state0 ['' '']" "'' ''" "[]", THEN conjunct1]
  by (simp add: state0_def findall_John_Doe findall_Jane findall_ignores_case
      findall_whole_words_only findall_spaces str_nat_0_1 str_nat_9
      spec_occurrence_examples)

subsection \<open>The actions that only echo their input\<close>

text \<open>
  C8. Each of the seven stub actions (username, email address, compromised databases,
  phone number, whois, reverse whois, passive DNS) shows its prompt, reads one line and
  prints exactly two lines of fixed format that contain the line as typed; it issues no
  GET, writes no log record and opens no reader. For \<^verbatim>\<open>alice\<close> the username search
  prints two lines containing \<^verbatim>\<open>alice\<close>.
\<close>

theorem stub_actions_echo_input:
  assumes "stdin s = x # rest"
  shows
    "run_username_search s
       = (Inr (), s\<lparr>stdin := rest, console := console s @
           [Prompt ''Enter the username for search: '',
            Print (''Searching for information related to username: '' @ x),
            Print (''Username '' @ x @ '' found on various platforms.'')]\<rparr>)
     \<and> run_email_address_search s
       = (Inr (), s\<lparr>stdin := rest, console := console s @
           [Prompt ''Enter the email address for search: '',
            Print (''Searching for information related to email address: '' @ x),
            Print (''Information related to '' @ x @ '' found.'')]\<rparr>)
     \<and> run_compromised_databases_search s
       = (Inr (), s\<lparr>stdin := rest, console := console s @
           [Prompt ''Enter the query for compromised databases search: '',
            Print (''Searching for compromised databases related to: '' @ x),
            Print (''Compromised databases related to '' @ x @ '' found.'')]\<rparr>)
     \<and> run_phone_number_search s
       = (Inr (), s\<lparr>stdin := rest, console := console s @
           [Prompt ''Enter the phone number for search: '',
            Print (''Searching for information related to phone number: '' @ x),
            Print (''Information related to phone number '' @ x @ '' found.'')]\<rparr>)
     \<and> run_whois s
       = (Inr (), s\<lparr>stdin := rest, console := console s @
           [Prompt ''Enter the domain for Whois lookup: '',
            Print (''Performing Whois lookup for domain: '' @ x),
            Print (''Whois information for '' @ x @ ''.'')]\<rparr>)
     \<and> run_reverse_whois s
       = (Inr (), s\<lparr>stdin := rest, console := console s @
           [Prompt ''Enter the name for Reverse Whois lookup: '',
            Print (''Performing Reverse Whois lookup for name: '' @ x),
            Print (''Reverse Whois information for '' @ x @ ''.'')]\<rparr>)
     \<and> run_passive_dns s
       = (Inr (), s\<lparr>stdin := rest, console := console s @
           [Prompt ''Enter the query for Passive DNS lookup: '',
            Print (''Performing Passive DNS lookup for query: '' @ x),
            Print (''Passive DNS information for '' @ x @ ''.'')]\<rparr>)"
  using assms
  by (simp add: run_username_search_def run_email_address_search_def
      run_compromised_databases_search_def run_phone_number_search_def run_whois_def
      run_reverse_whois_def run_passive_dns_def io_defs)

theorem stub_actions_echo_input_witness:
  "run_username_search (state0 [''alice''])
     = (Inr (), \<lparr>stdin = [], console =
         [Prompt ''Enter the username for search: '',
          Print ''Searching for information related to username: alice'',
          Print ''Username alice found on various platforms.''],
         log = [], requests = [], readers_open = 0\<rparr>)"
  using stub_actions_echo_input [of "state0 [''alice'']" "''alice''" "[]"]
  by (simp add: state0_def)

subsection \<open>The sub-menu of the geolocation tools\<close>

text \<open>
  C10. When the line typed at the sub-menu of Geolocation Tools is neither \<^verbatim>\<open>1\<close> nor
  \<^verbatim>\<open>2\<close>, the method prints the three header lines, shows the prompt, runs no lookup,
  prints no message about the choice and returns normally.
\<close>

theorem geolocation_tools_other_choice:
  assumes "stdin s = choice # rest" and "choice \<noteq> ''1''" and "choice \<noteq> ''2''"
  shows "run_geolocation_tools env s
           = (Inr (), s\<lparr>stdin := rest, console := console s @
               [Print ''Geolocation Tools:'',
                Print ''1. IP-based Geolocation'',
                Print ''2. Location Search'',
                Prompt ''Enter your choice (1-2): '']\<rparr>)"
  using assms by (simp add: run_geolocation_tools_def io_defs)

theorem geolocation_tools_other_choice_witness:
  "run_geolocation_tools env_offline (state0 [''3'', ''8.8.8.8''])
     = (Inr (), \<lparr>stdin = [''8.8.8.8''], console =
          [Print ''Geolocation Tools:'',
           Print ''1. IP-based Geolocation'',
           Print ''2. Location Search'',
           Prompt ''Enter your choice (1-2): ''],
          log = [], requests = [], readers_open = 0\<rparr>)"
  using geolocation_tools_other_choice [of "state0 [''3'', ''8.8.8.8'']" "''3''" "[''8.8.8.8'']" env_offline]
  by (simp add: state0_def)

section \<open>The fetch wrapper\<close>

lemma http_error_msg_None_iff:
  "http_error_msg r = None \<longleftrightarrow> \<not> (400 \<le> status_code r \<and> status_code r < 600)"
  by (auto simp: http_error_msg_def)

text \<open>
  C3 as stated fails: a GET answered with status 304, which is not a 2xx status, makes
  \<^verbatim>\<open>raise_for_status\<close> raise nothing, and \<^verbatim>\<open>make_request\<close> returns the response,
  logs nothing and prints nothing.
\<close>

theorem make_request_304_counterexample:
  "status_code (response_with 304 ''Not Modified'' not_json) = 304
   \<and> make_request (env_serving (response_with 304 ''Not Modified'' not_json))
         ''https://example.com/'' None (state0 [])
       = (Inr (Some (response_with 304 ''Not Modified'' not_json)),
          \<lparr>stdin = [], console = [], log = [],
           requests = [(''https://example.com/'', None)], readers_open = 0\<rparr>)"
  by (simp add: make_request_def requests_get_io_def raise_for_status_def http_error_msg_def
      io_defs env_serving_def env_offline_def response_with_def not_json_def quoted_def state0_def)

text \<open>
  C3, amended. Every call of \<^verbatim>\<open>make_request\<close> issues exactly one GET. When the GET
  raises a \<^verbatim>\<open>RequestException\<close> (a transport error), or returns a response whose
  status is from 400 to 599, the call returns \<^verbatim>\<open>None\<close>, adds exactly one record of
  level ERROR to the log (written with the time of the call in front) and prints
  exactly one line. When the GET returns a response with any other status (a 2xx
  status, and a 1xx or 3xx status as well), the call returns the response, logs
  nothing and prints nothing.
\<close>

theorem make_request_outcomes:
  "(\<forall>e. requests_get env (length (requests s)) u p = Inl e
        \<and> isinstance_RequestException (cls e) \<longrightarrow>
      make_request env u p s
        = (Inr None,
           s\<lparr>requests := requests s @ [(u, p)],
             log := log s @ [\<lparr>level = ERROR, message = ''Request failed: '' @ msg e\<rparr>],
             console := console s @ [Print (''Request failed: '' @ msg e)]\<rparr>))
   \<and> (\<forall>r. requests_get env (length (requests s)) u p = Inr r
        \<and> 400 \<le> status_code r \<and> status_code r < 600 \<longrightarrow>
      (\<exists>m. http_error_msg r = Some m
        \<and> make_request env u p s
            = (Inr None,
               s\<lparr>requests := requests s @ [(u, p)],
                 log := log s @ [\<lparr>level = ERROR, message = ''Request failed: '' @ m\<rparr>],
                 console := console s @ [Print (''Request failed: '' @ m)]\<rparr>)))
   \<and> (\<forall>r. requests_get env (length (requests s)) u p = Inr r
        \<and> \<not> (400 \<le> status_code r \<and> status_code r < 600) \<longrightarrow>
      make_request env u p s = (Inr (Some r), s\<lparr>requests := requests s @ [(u, p)]\<rparr>))
   \<and> requests (snd (make_request env u p s)) = requests s @ [(u, p)]
   \<and> format_record asctime \<lparr>level = ERROR, message = m'\<rparr> = asctime @ '':ERROR:'' @ m'"
proof (intro conjI allI impI)
  fix e
  assume "requests_get env (length (requests s)) u p = Inl e \<and> isinstance_RequestException (cls e)"
  then show "make_request env u p s
        = (Inr None,
           s\<lparr>requests := requests s @ [(u, p)],
             log := log s @ [\<lparr>level = ERROR, message = ''Request failed: '' @ msg e\<rparr>],
             console := console s @ [Print (''Request failed: '' @ msg e)]\<rparr>)"
    by (simp add: make_request_def requests_get_io_def io_defs)
next
  fix r
  assume a: "requests_get env (length (requests s)) u p = Inr r
      \<and> 400 \<le> status_code r \<and> status_code r < 600"
  then obtain m where m: "http_error_msg r = Some m"
    using http_error_msg_None_iff [of r] by (cases "http_error_msg r") auto
  have "make_request env u p s
            = (Inr None,
               s\<lparr>requests := requests s @ [(u, p)],
                 log := log s @ [\<lparr>level = ERROR, message = ''Request failed: '' @ m\<rparr>],
                 console := console s @ [Print (''Request failed: '' @ m)]\<rparr>)"
    using a m by (simp add: make_request_def requests_get_io_def raise_for_status_def io_defs)
  with m show "\<exists>m. http_error_msg r = Some m
        \<and> make_request env u p s
            = (Inr None,
               s\<lparr>requests := requests s @ [(u, p)],
                 log := log s @ [\<lparr>level = ERROR, message = ''Request failed: '' @ m\<rparr>],
                 console := console s @ [Print (''Request failed: '' @ m)]\<rparr>)"
    by blast
next
  fix r
  assume a: "requests_get env (length (requests s)) u p = Inr r
        \<and> \<not> (400 \<le> status_code r \<and> status_code r < 600)"
  then have "http_error_msg r = None" by (simp add: http_error_msg_None_iff)
  with a show "make_request env u p s = (Inr (Some r), s\<lparr>requests := requests s @ [(u, p)]\<rparr>)"
    by (simp add: make_request_def requests_get_io_def raise_for_status_def io_defs)
next
  show "requests (snd (make_request env u p s)) = requests s @ [(u, p)]"
    by (cases "requests_get env (length (requests s)) u p")
       (auto simp: make_request_def requests_get_io_def raise_for_status_def io_defs
          split: option.splits)
next
  show "format_record asctime \<lparr>level = ERROR, message = m'\<rparr> = asctime @ '':ERROR:'' @ m'"
    by (simp add: format_record_def)
qed

lemma str_nat_404: "str_nat 404 = ''404''"
  by code_simp

theorem make_request_outcomes_witness:
  "make_request env_offline ''https://example.com/'' None (state0 [])
     = (Inr None,
        \<lparr>stdin = [], console = [Print ''Request failed: Connection refused''],
         log = [\<lparr>level = ERROR, message = ''Request failed: Connection refused''\<rparr>],
         requests = [(''https://example.com/'', None)], readers_open = 0\<rparr>)
   \<and> make_request (env_serving (response_with 404 ''Not Found'' not_json))
       ''https://example.com/'' None (state0 [])
     = (Inr None,
        \<lparr>stdin = [],
         console = [Print ''Request failed: 404 Client Error: Not Found for url: https://example.com/''],
         log = [\<lparr>level = ERROR, message =
                 ''Request failed: 404 Client Error: Not Found for url: https://example.com/''\<rparr>],
         requests = [(''https://example.com/'', None)], readers_open = 0\<rparr>)
   \<and> make_request (env_serving (response_with 200 ''OK'' not_json))
       ''https://example.com/'' None (state0 [])
     = (Inr (Some (response_with 200 ''OK'' not_json)),
        \<lparr>stdin = [], console = [], log = [],
         requests = [(''https://example.com/'', None)], readers_open = 0\<rparr>)"
  using
    make_request_outcomes [of env_offline "state0 []" "''https://example.com/''" None]
    make_request_outcomes [of "env_serving (response_with 404 ''Not Found'' not_json)" "state0 []"
      "''https://example.com/''" None]
    make_request_outcomes [of "env_serving (response_with 200 ''OK'' not_json)" "state0 []"
      "''https://example.com/''" None]
  by (simp add: env_offline_def env_serving_def response_with_def state0_def http_error_msg_def
      str_nat_404)

section \<open>The geo database lookup\<close>

text \<open>
  C5. Once the IP address has been read, \<^verbatim>\<open>run_ip_geolocation\<close> returns normally on
  every path and leaves as many readers open as it found: when the database cannot be
  opened no reader was acquired, and a reader that was opened is closed after a
  successful lookup and after a failed one. On every error (the database missing or
  malformed, the address not found) it writes one ERROR record to the log and prints
  one message that names the address and the error.
\<close>

theorem run_ip_geolocation_recovers_and_releases:
  assumes "stdin s = ip_address # rest"
  shows
    "fst (run_ip_geolocation env s) = Inr ()
     \<and> readers_open (snd (run_ip_geolocation env s)) = readers_open s
     \<and> (\<forall>e. geoip_Reader env ''GeoLite2-City.mmdb'' = Inl e \<longrightarrow>
          run_ip_geolocation env s
            = (Inr (), s\<lparr>stdin := rest,
                 console := console s @
                   [Prompt ''Enter the IP address to geolocate: '',
                    Print (''Failed to geolocate IP address '' @ ip_address @ '': '' @ msg e)],
                 log := log s @
                   [\<lparr>level = ERROR, message =
                       ''Failed to geolocate IP address '' @ ip_address @ '': '' @ msg e\<rparr>]\<rparr>))
     \<and> (\<forall>reader e. geoip_Reader env ''GeoLite2-City.mmdb'' = Inr reader
            \<and> reader ip_address = Inl e \<longrightarrow>
          run_ip_geolocation env s
            = (Inr (), s\<lparr>stdin := rest,
                 console := console s @
                   [Prompt ''Enter the IP address to geolocate: '',
                    Print (''Failed to geolocate IP address '' @ ip_address @ '': '' @ msg e)],
                 log := log s @
                   [\<lparr>level = ERROR, message =
                       ''Failed to geolocate IP address '' @ ip_address @ '': '' @ msg e\<rparr>]\<rparr>))
     \<and> (\<forall>reader response. geoip_Reader env ''GeoLite2-City.mmdb'' = Inr reader
            \<and> reader ip_address = Inr response \<longrightarrow>
          run_ip_geolocation env s
            = (Inr (), s\<lparr>stdin := rest,
                 console := console s @
                   [Prompt ''Enter the IP address to geolocate: '',
                    Print (''Geolocation for IP '' @ ip_address @ '':''),
                    Print (''City: '' @ str_opt (city_name response)),
                    Print (''Country: '' @ str_opt (country_name response)),
                    Print (''Latitude: '' @ str_opt (latitude response)),
                    Print (''Longitude: '' @ str_opt (longitude response))]\<rparr>))"
proof -
  let ?s1 = "s\<lparr>stdin := rest, console := console s @ [Prompt ''Enter the IP address to geolocate: '']\<rparr>"
  show ?thesis
  proof (cases "geoip_Reader env ''GeoLite2-City.mmdb''")
    case (Inl e)
    then show ?thesis
      using assms by (simp add: run_ip_geolocation_def with_Reader_def isinstance_Exception_def io_defs)
  next
    case (Inr reader)
    show ?thesis
    proof (cases "reader ip_address")
      case (Inl e)
      then show ?thesis
        using assms Inr
        by (simp add: run_ip_geolocation_def with_Reader_def isinstance_Exception_def io_defs)
    next
      case r: (Inr response)
      then show ?thesis
        using assms Inr
        by (simp add: run_ip_geolocation_def with_Reader_def isinstance_Exception_def io_defs)
    qed
  qed
qed

theorem run_ip_geolocation_recovers_and_releases_witness:
  "run_ip_geolocation env_offline (state0 [''8.8.8.8''])
     = (Inr (),
        \<lparr>stdin = [],
         console =
           [Prompt ''Enter the IP address to geolocate: '',
            Print ''Failed to geolocate IP address 8.8.8.8: No such file or directory''],
         log = [\<lparr>level = ERROR, message =
                  ''Failed to geolocate IP address 8.8.8.8: No such file or directory''\<rparr>],
         requests = [], readers_open = 0\<rparr>)
   \<and> run_ip_geolocation (env_with_reader reader_example) (state0 [''10.0.0.1''])
     = (Inr (),
        \<lparr>stdin = [],
         console =
           [Prompt ''Enter the IP address to geolocate: '',
            Print ''Failed to geolocate IP address 10.0.0.1: The address 10.0.0.1 is not in the database.''],
         log = [\<lparr>level = ERROR, message =
                  ''Failed to geolocate IP address 10.0.0.1: The address 10.0.0.1 is not in the database.''\<rparr>],
         requests = [], readers_open = 0\<rparr>)
   \<and> run_ip_geolocation (env_with_reader reader_example) (state0 [''8.8.8.8''])
     = (Inr (),
        \<lparr>stdin = [],
         console =
           [Prompt ''Enter the IP address to geolocate: '',
            Print ''Geolocation for IP 8.8.8.8:'',
            Print ''City: None'',
            Print ''Country: United States'',
            Print ''Latitude: 37.751'',
            Print ''Longitude: -97.822''],
         log = [], requests = [], readers_open = 0\<rparr>)"
  using
    run_ip_geolocation_recovers_and_releases [of "state0 [''8.8.8.8'']" "''8.8.8.8''" "[]" env_offline]
    run_ip_geolocation_recovers_and_releases [of "state0 [''10.0.0.1'']" "''10.0.0.1''" "[]"
      "env_with_reader reader_example"]
    run_ip_geolocation_recovers_and_releases [of "state0 [''8.8.8.8'']" "''8.8.8.8''" "[]"
      "env_with_reader reader_example"]
  by (simp add: state0_def env_offline_def env_with_reader_def reader_example_def str_opt_def)

section \<open>The loop\<close>

lemma start_iteration_Cons:
  assumes "stdin s = line # rest"
  shows "start_iteration env s
           = try_except (bind (lift (int_py env (strip line))) (start_choice env))
               isinstance_ValueError (\<lambda>e. print ''Invalid input. Please enter a number.'')
               (prompted s rest)"
  using assms
  by (simp add: start_iteration_def start_try_def seq_def bind_def print_menu_eq try_except_def
      input_def prompted_def)

lemma start_continues: "start_iteration env s = (Inr u, s') \<Longrightarrow> start env s = start env s'"
  by (subst start.simps) simp

lemma start_ends: "start_iteration env s = (Inl e, s') \<Longrightarrow> start env s = (e, s')"
  by (subst start.simps) simp

lemma int_py_Inl: "int_py env x = Inl e \<Longrightarrow> cls e = ValueError"
  by (auto simp: int_py_def Let_def split: option.splits if_splits)

lemma strip_no_space:
  assumes "s \<noteq> []" and "\<not> isspace (hd s)" and "\<not> isspace (last s)"
  shows "strip s = s"
proof -
  have "dropWhile isspace s = s"
    using assms(2) by (simp add: dropWhile_eq_self_iff)
  moreover have "dropWhile isspace (rev s) = rev s"
    using assms(1,3) by (simp add: dropWhile_eq_self_iff hd_rev)
  ultimately show ?thesis by (simp add: strip_def)
qed

lemma parse_digits_zeros:
  "parse_digits True acc (replicate n (CHR ''0'')) = Some (acc * 10 ^ n)"
  by (induction n arbitrary: acc) (simp_all add: isdigit_def digit_val_def)

lemma parse_digits_one_zeros:
  "parse_digits False 0 (CHR ''1'' # replicate n (CHR ''0'')) = Some (10 ^ n)"
  using parse_digits_zeros [of 1 n] by (simp add: isdigit_def digit_val_def)

lemma strip_one_zeros:
  "strip (CHR ''1'' # replicate n (CHR ''0'')) = CHR ''1'' # replicate n (CHR ''0'')"
proof -
  have "last (CHR ''1'' # replicate n (CHR ''0'')) = CHR ''1''
        \<or> last (CHR ''1'' # replicate n (CHR ''0'')) = CHR ''0''"
    by (cases n) simp_all
  then have "\<not> isspace (last (CHR ''1'' # replicate n (CHR ''0'')))"
    by (auto simp: isspace_def)
  then show ?thesis
    by (intro strip_no_space) (simp_all add: isspace_def)
qed

lemma int_py_one_zeros:
  assumes "640 < Suc n" and "0 < int_max_str_digits env" and "int_max_str_digits env < Suc n"
  shows "int_py env (strip (CHR ''1'' # replicate n (CHR ''0'')))
           = Inl (Exn ValueError
                (''Exceeds the limit ('' @ str_nat (int_max_str_digits env)
                 @ '' digits) for integer string conversion: value has '' @ str_nat (Suc n)
                 @ '' digits; use sys.set_int_max_str_digits() to increase the limit''))"
  using assms
  by (simp add: int_py_def Let_def strip_one_zeros isdigit_def digit_val_def parse_digits_zeros)

text \<open>
  C7 as stated fails on a number that is too long: the line \<^verbatim>\<open>1\<close> followed by 4300
  zeros is the number \<open>10 ^ 4300\<close>, outside 1..22, but with the interpreter's limit of
  4300 digits \<^verbatim>\<open>int\<close> raises \<^verbatim>\<open>ValueError\<close>, and the turn prints the invalid-input
  message, not the invalid-choice message.
\<close>

theorem long_number_counterexample:
  "parse_digits False 0 (CHR ''1'' # replicate 4300 (CHR ''0'')) = Some (10 ^ 4300)
   \<and> (22 :: nat) < 10 ^ 4300
   \<and> int_max_str_digits env_offline = 4300
   \<and> start_iteration env_offline (state0 [CHR ''1'' # replicate 4300 (CHR ''0'')])
     = (Inr (),
        \<lparr>stdin = [],
         console = menu_lines
           @ [Prompt ''Enter your choice (1-22): '',
              Print ''Invalid input. Please enter a number.''],
         log = [], requests = [], readers_open = 0\<rparr>)"
proof (intro conjI)
  show "parse_digits False 0 (CHR ''1'' # replicate 4300 (CHR ''0'')) = Some (10 ^ 4300)"
    by (rule parse_digits_one_zeros)
  have "(10 :: nat) ^ 2 \<le> 10 ^ 4300"
    by (rule power_increasing) simp_all
  moreover have "(22 :: nat) < 10 ^ 2"
    by simp
  ultimately show "(22 :: nat) < 10 ^ 4300"
    by (rule less_le_trans [rotated])
  show limit: "int_max_str_digits env_offline = 4300"
    by (simp add: env_offline_def)
  have "int_py env_offline (strip (CHR ''1'' # replicate 4300 (CHR ''0'')))
          = Inl (Exn ValueError
                (''Exceeds the limit ('' @ str_nat (int_max_str_digits env_offline)
                 @ '' digits) for integer string conversion: value has '' @ str_nat (Suc 4300)
                 @ '' digits; use sys.set_int_max_str_digits() to increase the limit''))"
    by (rule int_py_one_zeros) (simp_all add: limit)
  moreover have "stdin (state0 [CHR ''1'' # replicate 4300 (CHR ''0'')])
          = (CHR ''1'' # replicate 4300 (CHR ''0'')) # []"
    by (simp add: state0_def)
  ultimately show "start_iteration env_offline (state0 [CHR ''1'' # replicate 4300 (CHR ''0'')])
     = (Inr (),
        \<lparr>stdin = [],
         console = menu_lines
           @ [Prompt ''Enter your choice (1-22): '',
              Print ''Invalid input. Please enter a number.''],
         log = [], requests = [], readers_open = 0\<rparr>)"
    by (simp add: start_iteration_Cons io_defs prompted_def state0_def)
qed

text \<open>
  C7, amended. When \<^verbatim>\<open>int\<close> converts the line typed at the menu to a number outside
  1..22, the turn of the loop prints the menu, the prompt and the invalid-choice message
  and nothing else; when \<^verbatim>\<open>int\<close> rejects the line with a \<^verbatim>\<open>ValueError\<close> (the line is
  not a number, or it has more digits than the interpreter's limit), it prints the
  invalid-input message instead. In both cases no action runs (no further prompt or
  line, no GET, no log record, no reader), and the loop goes on from that state: it
  prints the menu and prompts again.
\<close>

theorem invalid_menu_input_reprompts:
  assumes "stdin s = line # rest"
  shows
    "(\<forall>n. int_py env (strip line) = Inr n \<and> (n < 1 \<or> 22 < n) \<longrightarrow>
        start_iteration env s
          = (Inr (), (prompted s rest)\<lparr>console := console (prompted s rest) @
               [Print ''Invalid choice. Please enter a number between 1 and 22.'']\<rparr>)
        \<and> start env s
          = start env ((prompted s rest)\<lparr>console := console (prompted s rest) @
               [Print ''Invalid choice. Please enter a number between 1 and 22.'']\<rparr>))
     \<and> (\<forall>e. int_py env (strip line) = Inl e \<longrightarrow>
        start_iteration env s
          = (Inr (), (prompted s rest)\<lparr>console := console (prompted s rest) @
               [Print ''Invalid input. Please enter a number.'']\<rparr>)
        \<and> start env s
          = start env ((prompted s rest)\<lparr>console := console (prompted s rest) @
               [Print ''Invalid input. Please enter a number.'']\<rparr>))"
proof (intro conjI allI impI)
  fix n
  assume a: "int_py env (strip line) = Inr n \<and> (n < 1 \<or> 22 < n)"
  then show it: "start_iteration env s
          = (Inr (), (prompted s rest)\<lparr>console := console (prompted s rest) @
               [Print ''Invalid choice. Please enter a number between 1 and 22.'']\<rparr>)"
    by (auto simp: start_iteration_Cons [OF assms] start_choice_def io_defs)
  show "start env s
          = start env ((prompted s rest)\<lparr>console := console (prompted s rest) @
               [Print ''Invalid choice. Please enter a number between 1 and 22.'']\<rparr>)"
    using it by (rule start_continues)
next
  fix e
  assume a: "int_py env (strip line) = Inl e"
  then have "cls e = ValueError" by (rule int_py_Inl)
  with a show it: "start_iteration env s
          = (Inr (), (prompted s rest)\<lparr>console := console (prompted s rest) @
               [Print ''Invalid input. Please enter a number.'']\<rparr>)"
    by (simp add: start_iteration_Cons [OF assms] io_defs)
  show "start env s
          = start env ((prompted s rest)\<lparr>console := console (prompted s rest) @
               [Print ''Invalid input. Please enter a number.'']\<rparr>)"
    using it by (rule start_continues)
qed

lemma start_EOF:
  assumes "stdin s = []"
  shows "start env s
           = (Raise (Exn EOFError ''EOF when reading a line''),
              s\<lparr>console := console s @ menu_lines @ [Prompt ''Enter your choice (1-22): '']\<rparr>)"
proof -
  have "start_iteration env s
      = (Inl (Raise (Exn EOFError ''EOF when reading a line'')),
         s\<lparr>console := console s @ menu_lines @ [Prompt ''Enter your choice (1-22): '']\<rparr>)"
    using assms
    by (simp add: start_iteration_def seq_def bind_def print_menu_eq try_except_def
        start_try_def input_def)
  then show ?thesis by (rule start_ends)
qed

lemma int_py_examples:
  "int_py env (strip ''23'') = Inr 23"
  "int_py env (strip '' -5 '') = Inr (- 5)"
  "int_py env (strip ''abc'')
     = Inl (Exn ValueError (''invalid literal for int() with base 10: '' @ py_repr_str env ''abc''))"
  "int_py env (strip ''3'') = Inr 3"
  "int_py env (strip ''22'') = Inr 22"
  "int_py env (strip [CHR ''2'', CHR ''3'', CHR 0xA0]) = Inr 23"
  by (simp_all add: int_py_def strip_def isspace_def isdigit_def digit_val_def Let_def)

theorem invalid_menu_input_reprompts_witness:
  "start env_offline (state0 [''23''])
     = (Raise (Exn EOFError ''EOF when reading a line''),
        \<lparr>stdin = [],
         console = menu_lines
           @ [Prompt ''Enter your choice (1-22): '',
              Print ''Invalid choice. Please enter a number between 1 and 22.'']
           @ menu_lines @ [Prompt ''Enter your choice (1-22): ''],
         log = [], requests = [], readers_open = 0\<rparr>)
   \<and> start env_offline (state0 [''abc''])
     = (Raise (Exn EOFError ''EOF when reading a line''),
        \<lparr>stdin = [],
         console = menu_lines
           @ [Prompt ''Enter your choice (1-22): '',
              Print ''Invalid input. Please enter a number.'']
           @ menu_lines @ [Prompt ''Enter your choice (1-22): ''],
         log = [], requests = [], readers_open = 0\<rparr>)
   \<and> start env_offline (state0 [[CHR ''2'', CHR ''3'', CHR 0xA0]])
     = (Raise (Exn EOFError ''EOF when reading a line''),
        \<lparr>stdin = [],
         console = menu_lines
           @ [Prompt ''Enter your choice (1-22): '',
              Print ''Invalid choice. Please enter a number between 1 and 22.'']
           @ menu_lines @ [Prompt ''Enter your choice (1-22): ''],
         log = [], requests = [], readers_open = 0\<rparr>)"
  using invalid_menu_input_reprompts [of "state0 [''23'']" "''23''" "[]" env_offline]
    invalid_menu_input_reprompts [of "state0 [''abc'']" "''abc''" "[]" env_offline]
    invalid_menu_input_reprompts [of "state0 [[CHR ''2'', CHR ''3'', CHR 0xA0]]"
      "[CHR ''2'', CHR ''3'', CHR 0xA0]" "[]" env_offline]
  by (simp add: int_py_examples start_EOF state0_def prompted_def)

text \<open>
  C9. When the action run for a selection raises an exception of class \<^verbatim>\<open>ValueError\<close>
  (as the JSON parse in the public-records action does on a body that is not JSON),
  the handler written for a non-numeric menu line catches it: the turn prints
  \<^verbatim>\<open>Invalid input. Please enter a number.\<close> after whatever the action had written, and
  the loop goes on.
\<close>

theorem action_ValueError_reported_as_invalid_input:
  assumes "stdin s = line # rest"
    and "int_py env (strip line) = Inr choice"
    and "start_choice env choice (prompted s rest) = (Inl (Raise e), s')"
    and "isinstance_ValueError (cls e)"
  shows
    "start_iteration env s
       = (Inr (), s'\<lparr>console := console s' @ [Print ''Invalid input. Please enter a number.'']\<rparr>)
     \<and> start env s
       = start env (s'\<lparr>console := console s' @ [Print ''Invalid input. Please enter a number.'']\<rparr>)"
proof -
  have it: "start_iteration env s
       = (Inr (), s'\<lparr>console := console s' @ [Print ''Invalid input. Please enter a number.'']\<rparr>)"
    using assms(2-4) by (simp add: start_iteration_Cons [OF assms(1)] io_defs)
  then show ?thesis by (simp add: start_continues)
qed

lemma start_choice_public_records: "start_choice env 3 = run_public_records env"
  by (simp add: start_choice_def run_menu_choice_def getitem_def run_menu_choice_options_def
      io_defs fun_eq_iff)

lemma run_public_records_not_json:
  "run_public_records (env_serving (response_with 200 ''OK'' not_json))
     (prompted (state0 [''3'', ''Smith'']) [''Smith''])
   = (Inl (Raise (Exn JSONDecodeError ''Expecting value: line 1 column 1 (char 0)'')),
      \<lparr>stdin = [],
       console = menu_lines
         @ [Prompt ''Enter your choice (1-22): '',
            Prompt ''Enter the name to search public records: ''],
       log = [],
       requests = [(''https://www.sa-publicrecords-example.com/search?name=Smith'', None)],
       readers_open = 0\<rparr>)"
  by (simp add: run_public_records_def make_request_def requests_get_io_def raise_for_status_def
      response_ok_def response_json_def http_error_msg_def io_defs env_serving_def
      env_offline_def response_with_def not_json_def quoted_def state0_def prompted_def)

theorem action_ValueError_reported_as_invalid_input_witness:
  "start_iteration (env_serving (response_with 200 ''OK'' not_json)) (state0 [''3'', ''Smith''])
     = (Inr (),
        \<lparr>stdin = [],
         console = menu_lines
           @ [Prompt ''Enter your choice (1-22): '',
              Prompt ''Enter the name to search public records: '',
              Print ''Invalid input. Please enter a number.''],
         log = [],
         requests = [(''https://www.sa-publicrecords-example.com/search?name=Smith'', None)],
         readers_open = 0\<rparr>)"
proof -
  have "stdin (state0 [''3'', ''Smith'']) = ''3'' # [''Smith'']"
    by (simp add: state0_def)
  moreover have "int_py (env_serving (response_with 200 ''OK'' not_json)) (strip ''3'') = Inr 3"
    by (rule int_py_examples)
  moreover note run_public_records_not_json [folded start_choice_public_records]
  moreover have "isinstance_ValueError (cls (Exn JSONDecodeError ''Expecting value: line 1 column 1 (char 0)''))"
    by simp
  ultimately show ?thesis
    by (simp add: action_ValueError_reported_as_invalid_input)
qed

lemma start_iteration_propagates:
  assumes "stdin s = line # rest"
    and "int_py env (strip line) = Inr choice"
    and "start_choice env choice (prompted s rest) = (Inl (Raise e), s')"
    and "\<not> isinstance_ValueError (cls e)"
  shows "start_iteration env s = (Inl (Raise e), s')"
  using assms(2-4) by (simp add: start_iteration_Cons [OF assms(1)] io_defs)

lemma run_public_records_no_records:
  "run_public_records (env_serving (response_with 200 ''OK'' (Inr (JObject []))))
     (prompted (state0 [''3'', ''Smith'']) [''Smith''])
   = (Inl (Raise (Exn KeyError (CHR 0x27 # ''records'' @ [CHR 0x27]))),
      \<lparr>stdin = [],
       console = menu_lines
         @ [Prompt ''Enter your choice (1-22): '',
            Prompt ''Enter the name to search public records: '',
            Print ''Public Records for Smith:''],
       log = [],
       requests = [(''https://www.sa-publicrecords-example.com/search?name=Smith'', None)],
       readers_open = 0\<rparr>)"
  by (simp add: run_public_records_def make_request_def requests_get_io_def raise_for_status_def
      response_ok_def response_json_def http_error_msg_def io_defs env_serving_def
      env_offline_def response_with_def not_json_def quoted_def state0_def prompted_def)

text \<open>
  The two ways the loop is written to go on or to end: an action that returns leads to
  the next turn, and selection 22 ends the loop with \<^verbatim>\<open>SystemExit\<close> after the farewell.
\<close>

lemma start_Exit:
  assumes "stdin s = line # rest" and "int_py env (strip line) = Inr 22"
  shows "start env s
           = (SystemExit,
              (prompted s rest)\<lparr>console := console (prompted s rest) @ [Print ''Exiting...'']\<rparr>)"
proof -
  have "start_iteration env s
      = (Inl SystemExit,
         (prompted s rest)\<lparr>console := console (prompted s rest) @ [Print ''Exiting...'']\<rparr>)"
    using assms(2)
    by (simp add: start_iteration_Cons [OF assms(1)] start_choice_def exit_program_def io_defs)
  then show ?thesis by (rule start_ends)
qed

lemma start_after_action:
  assumes "stdin s = line # rest" and "int_py env (strip line) = Inr choice"
    and "start_choice env choice (prompted s rest) = (Inr (), s')"
  shows "start env s = start env s'"
proof -
  have "start_iteration env s = (Inr (), s')"
    using assms(2,3) by (simp add: start_iteration_Cons [OF assms(1)] io_defs)
  then show ?thesis by (rule start_continues)
qed

text \<open>
  \<^verbatim>\<open>run_module\<close>, the dispatcher for plug-in modules, does catch every \<^verbatim>\<open>Exception\<close> of
  the module it runs: no exception of a module passes it.
\<close>

lemma run_module_catches_every_Exception:
  "fst (run_module env modules module_name args s) \<noteq> Inl (Raise e)"
proof (cases "modules module_name")
  case None
  then show ?thesis by (simp add: run_module_def print_def)
next
  case (Some module_run)
  obtain r s' where m: "module_run args s = (r, s')" by (cases "module_run args s")
  show ?thesis
  proof (cases r)
    case (Inr u)
    with Some m show ?thesis by (simp add: run_module_def isinstance_Exception_def io_defs)
  next
    case (Inl x)
    with Some m show ?thesis
      by (cases x) (simp_all add: run_module_def isinstance_Exception_def io_defs)
  qed
qed

text \<open>
  C1 says that no exception of an action passes the dispatch and that each failure is
  logged and reported. On this run it is not so: selection 3 (public records), a 200
  response whose JSON document is \<^verbatim>\<open>{}\<close>. \<^verbatim>\<open>data['records']\<close> raises \<^verbatim>\<open>KeyError\<close>;
  neither \<^verbatim>\<open>run_menu_choice\<close> nor the \<^verbatim>\<open>try\<close> of \<^verbatim>\<open>start\<close> catches it, nothing is
  logged and no message is printed: the exception leaves the turn of the loop.
\<close>

theorem public_records_KeyError_leaves_the_loop_body:
  "start_iteration (env_serving (response_with 200 ''OK'' (Inr (JObject []))))
     (state0 [''3'', ''Smith''])
     = (Inl (Raise (Exn KeyError (CHR 0x27 # ''records'' @ [CHR 0x27]))),
        \<lparr>stdin = [],
         console = menu_lines
           @ [Prompt ''Enter your choice (1-22): '',
              Prompt ''Enter the name to search public records: '',
              Print ''Public Records for Smith:''],
         log = [],
         requests = [(''https://www.sa-publicrecords-example.com/search?name=Smith'', None)],
         readers_open = 0\<rparr>)"
proof (rule start_iteration_propagates)
  show "stdin (state0 [''3'', ''Smith'']) = ''3'' # [''Smith'']"
    by (simp add: state0_def)
  show "int_py (env_serving (response_with 200 ''OK'' (Inr (JObject [])))) (strip ''3'') = Inr 3"
    by (rule int_py_examples)
  show "start_choice (env_serving (response_with 200 ''OK'' (Inr (JObject [])))) 3
          (prompted (state0 [''3'', ''Smith'']) [''Smith''])
        = (Inl (Raise (Exn KeyError (CHR 0x27 # ''records'' @ [CHR 0x27]))),
        \<lparr>stdin = [],
         console = menu_lines
           @ [Prompt ''Enter your choice (1-22): '',
              Prompt ''Enter the name to search public records: '',
              Print ''Public Records for Smith:''],
         log = [],
         requests = [(''https://www.sa-publicrecords-example.com/search?name=Smith'', None)],
         readers_open = 0\<rparr>)"
    unfolding start_choice_public_records by (rule run_public_records_no_records)
  show "\<not> isinstance_ValueError (cls (Exn KeyError (CHR 0x27 # ''records'' @ [CHR 0x27])))"
    by simp
qed

text \<open>
  C6 says that the loop ends only through Exit. On the run of C1 the loop ends with the
  \<^verbatim>\<open>KeyError\<close> of the public-records action: Exit was never selected and the farewell
  line was never printed.
\<close>

theorem loop_ends_on_KeyError_without_Exit:
  "start (env_serving (response_with 200 ''OK'' (Inr (JObject []))))
          (state0 [''3'', ''Smith''])
     = (Raise (Exn KeyError (CHR 0x27 # ''records'' @ [CHR 0x27])),
        \<lparr>stdin = [],
         console = menu_lines
           @ [Prompt ''Enter your choice (1-22): '',
              Prompt ''Enter the name to search public records: '',
              Print ''Public Records for Smith:''],
         log = [],
         requests = [(''https://www.sa-publicrecords-example.com/search?name=Smith'', None)],
         readers_open = 0\<rparr>)
   \<and> Print ''Exiting...'' \<notin> set (menu_lines
           @ [Prompt ''Enter your choice (1-22): '',
              Prompt ''Enter the name to search public records: '',
              Print ''Public Records for Smith:''])"
proof
  have "start_iteration (env_serving (response_with 200 ''OK'' (Inr (JObject []))))
     (state0 [''3'', ''Smith''])
     = (Inl (Raise (Exn KeyError (CHR 0x27 # ''records'' @ [CHR 0x27]))),
        \<lparr>stdin = [],
         console = menu_lines
           @ [Prompt ''Enter your choice (1-22): '',
              Prompt ''Enter the name to search public records: '',
              Print ''Public Records for Smith:''],
         log = [],
         requests = [(''https://www.sa-publicrecords-example.com/search?name=Smith'', None)],
         readers_open = 0\<rparr>)"
  proof (rule start_iteration_propagates)
    show "stdin (state0 [''3'', ''Smith'']) = ''3'' # [''Smith'']"
      by (simp add: state0_def)
    show "int_py (env_serving (response_with 200 ''OK'' (Inr (JObject [])))) (strip ''3'') = Inr 3"
      by (rule int_py_examples)
    show "start_choice (env_serving (response_with 200 ''OK'' (Inr (JObject [])))) 3
          (prompted (state0 [''3'', ''Smith'']) [''Smith''])
        = (Inl (Raise (Exn KeyError (CHR 0x27 # ''records'' @ [CHR 0x27]))),
        \<lparr>stdin = [],
         console = menu_lines
           @ [Prompt ''Enter your choice (1-22): '',
              Prompt ''Enter the name to search public records: '',
              Print ''Public Records for Smith:''],
         log = [],
         requests = [(''https://www.sa-publicrecords-example.com/search?name=Smith'', None)],
         readers_open = 0\<rparr>)"
      unfolding start_choice_public_records by (rule run_public_records_no_records)
    show "\<not> isinstance_ValueError (cls (Exn KeyError (CHR 0x27 # ''records'' @ [CHR 0x27])))"
      by simp
  qed
  then show "start (env_serving (response_with 200 ''OK'' (Inr (JObject []))))
          (state0 [''3'', ''Smith''])
     = (Raise (Exn KeyError (CHR 0x27 # ''records'' @ [CHR 0x27])),
        \<lparr>stdin = [],
         console = menu_lines
           @ [Prompt ''Enter your choice (1-22): '',
              Prompt ''Enter the name to search public records: '',
              Print ''Public Records for Smith:''],
         log = [],
         requests = [(''https://www.sa-publicrecords-example.com/search?name=Smith'', None)],
         readers_open = 0\<rparr>)"
    by (rule start_ends)
  show "Print ''Exiting...'' \<notin> set (menu_lines
           @ [Prompt ''Enter your choice (1-22): '',
              Prompt ''Enter the name to search public records: '',
              Print ''Public Records for Smith:''])"
    by (simp add: menu_lines_eq)
qed

section \<open>The menu and the dispatch\<close>

lemma bind_lift_Inr: "bind (lift (Inr a)) f = f a"
  by (simp add: fun_eq_iff bind_def lift_def return_def)

lemma length_print_menu_options: "length print_menu_options = 22"
  by (simp add: print_menu_options_def)

lemma run_menu_choice_options_eq: "run_menu_choice_options = map snd (take 19 print_menu_options)"
  by (simp add: run_menu_choice_options_def print_menu_options_def)

lemma run_menu_choice_in_range:
  assumes "1 \<le> choice" and "choice \<le> 19"
  shows "run_menu_choice env choice = call env (snd (print_menu_options ! nat (choice - 1)))"
proof -
  have i: "nat (choice - 1) < 19" using assms by simp
  have "getitem run_menu_choice_options (choice - 1)
          = Inr (run_menu_choice_options ! nat (choice - 1))"
    using assms by (simp add: getitem_def run_menu_choice_options_def)
  moreover have "run_menu_choice_options ! nat (choice - 1)
          = snd (print_menu_options ! nat (choice - 1))"
    using i by (simp add: run_menu_choice_options_eq length_print_menu_options)
  ultimately show ?thesis
    by (simp add: run_menu_choice_def bind_lift_Inr)
qed

lemma menu_lines_nth:
  assumes "i < length print_menu_options"
  shows "menu_lines ! Suc i = Print (str_nat (Suc i) @ ''. '' @ fst (print_menu_options ! i))"
  using assms by (simp add: menu_lines_def nth_enumerate_eq split: prod.splits)

text \<open>
  C2. For every selection from 1 to 22, what \<^verbatim>\<open>start\<close> does with it is one call of the
  method that \<^verbatim>\<open>print_menu\<close> binds to the label printed at that position: the 19
  entries of the table of \<^verbatim>\<open>run_menu_choice\<close> are the first 19 methods of the table of
  \<^verbatim>\<open>print_menu\<close>, and the branches for 20, 21 and 22 call its last three, Help,
  Settings and Exit, from the same selection in the same loop.
\<close>

theorem dispatch_agrees_with_menu:
  assumes "1 \<le> choice" and "choice \<le> 22"
  shows
    "start_choice env choice = call env (snd (print_menu_options ! nat (choice - 1)))
     \<and> menu_lines ! nat choice
         = Print (str_nat (nat choice) @ ''. '' @ fst (print_menu_options ! nat (choice - 1)))
     \<and> length print_menu_options = 22 \<and> length menu_lines = 23
     \<and> run_menu_choice_options = map snd (take 19 print_menu_options)
     \<and> map snd (drop 19 print_menu_options) = [M_print_help, M_print_settings, M_exit_program]"
proof (intro conjI)
  consider "choice \<le> 19" | "choice = 20" | "choice = 21" | "choice = 22"
    using assms by linarith
  then show "start_choice env choice = call env (snd (print_menu_options ! nat (choice - 1)))"
  proof cases
    case 1
    with assms show ?thesis
      by (simp add: start_choice_def run_menu_choice_in_range)
  next
    case 2
    then show ?thesis by (simp add: start_choice_def print_menu_options_def)
  next
    case 3
    then show ?thesis by (simp add: start_choice_def print_menu_options_def)
  next
    case 4
    then show ?thesis by (simp add: start_choice_def print_menu_options_def)
  qed
next
  have "nat choice = Suc (nat (choice - 1))" using assms by simp
  moreover have "nat (choice - 1) < length print_menu_options"
    using assms by (simp add: length_print_menu_options)
  ultimately show "menu_lines ! nat choice
         = Print (str_nat (nat choice) @ ''. '' @ fst (print_menu_options ! nat (choice - 1)))"
    by (simp add: menu_lines_nth)
next
  show "length print_menu_options = 22" by (rule length_print_menu_options)
next
  show "length menu_lines = 23" by (simp add: menu_lines_def length_print_menu_options)
next
  show "run_menu_choice_options = map snd (take 19 print_menu_options)"
    by (rule run_menu_choice_options_eq)
next
  show "map snd (drop 19 print_menu_options) = [M_print_help, M_print_settings, M_exit_program]"
    by (simp add: print_menu_options_def)
qed

theorem dispatch_agrees_with_menu_witness:
  "start_choice env_offline 20 = print_help
   \<and> menu_lines ! 20 = Print ''20. Help''
   \<and> start_choice env_offline 21 = print_settings
   \<and> menu_lines ! 21 = Print ''21. Settings''
   \<and> start_choice env_offline 12 = run_username_search
   \<and> menu_lines ! 12 = Print ''12. Username Search''
   \<and> start_choice env_offline 22 = exit_program
   \<and> menu_lines ! 22 = Print ''22. Exit''"
  using dispatch_agrees_with_menu [of 20 env_offline] dispatch_agrees_with_menu [of 21 env_offline]
    dispatch_agrees_with_menu [of 12 env_offline] dispatch_agrees_with_menu [of 22 env_offline]
  by (simp add: print_menu_options_def menu_lines_eq)

end
